theory Spec2Isabelle
  imports Main "HOL-Library.Multiset" "HOL-Library.Product_Lexorder"
begin

section \<open>JavaScript values and strings\<close>

text \<open>
  A value read from a parsed JSON request body. Numbers, arrays and objects are not part
  of the model: the handlers below are followed on absent fields, \<open>null\<close>, booleans and
  strings. A string is the list of the bytes of its UTF-8 encoding (a well-formed string:
  no lone surrogates).
\<close>

datatype jsval = Undefined | Null | Bool bool | Str string

fun truthy :: "jsval \<Rightarrow> bool" where
  "truthy Undefined = False"
| "truthy Null = False"
| "truthy (Bool b) = b"
| "truthy (Str s) = (s \<noteq> [])"

fun String :: "jsval \<Rightarrow> string" where
  "String Undefined = ''undefined''"
| "String Null = ''null''"
| "String (Bool b) = (if b then ''true'' else ''false'')"
| "String (Str s) = s"

text \<open>
  The white space and line terminator code points of ECMAScript, which
  \<open>String.prototype.trim\<close> strips, each as its UTF-8 encoding: TAB, LF, VT, FF, CR, SPACE,
  U+00A0, U+1680, U+2000 to U+200A, U+2028, U+2029, U+202F, U+205F, U+3000 and U+FEFF.
\<close>

definition whiteSpace :: "string list" where
  "whiteSpace =
     [[CHR 0x09], [CHR 0x0A], [CHR 0x0B], [CHR 0x0C], [CHR 0x0D], [CHR 0x20],
      [CHR 0xC2, CHR 0xA0],
      [CHR 0xE1, CHR 0x9A, CHR 0x80],
      [CHR 0xE2, CHR 0x80, CHR 0x80], [CHR 0xE2, CHR 0x80, CHR 0x81],
      [CHR 0xE2, CHR 0x80, CHR 0x82], [CHR 0xE2, CHR 0x80, CHR 0x83],
      [CHR 0xE2, CHR 0x80, CHR 0x84], [CHR 0xE2, CHR 0x80, CHR 0x85],
      [CHR 0xE2, CHR 0x80, CHR 0x86], [CHR 0xE2, CHR 0x80, CHR 0x87],
      [CHR 0xE2, CHR 0x80, CHR 0x88], [CHR 0xE2, CHR 0x80, CHR 0x89],
      [CHR 0xE2, CHR 0x80, CHR 0x8A],
      [CHR 0xE2, CHR 0x80, CHR 0xA8], [CHR 0xE2, CHR 0x80, CHR 0xA9],
      [CHR 0xE2, CHR 0x80, CHR 0xAF],
      [CHR 0xE2, CHR 0x81, CHR 0x9F],
      [CHR 0xE3, CHR 0x80, CHR 0x80],
      [CHR 0xEF, CHR 0xBB, CHR 0xBF]]"

definition startsWith :: "string \<Rightarrow> string \<Rightarrow> bool" where
  "startsWith s w = (w \<noteq> [] \<and> take (length w) s = w)"

text \<open>Dropping from the front of a string, as long as there is one, any of the given
  sequences.\<close>

function dropLeading :: "string list \<Rightarrow> string \<Rightarrow> string" where
  "dropLeading ws s =
     (case find (startsWith s) ws of
        None \<Rightarrow> s
      | Some w \<Rightarrow> dropLeading ws (drop (length w) s))"
  by pat_completeness auto
termination
proof (relation "measure (\<lambda>(ws, s). length s)")
  show "wf (measure (\<lambda>(ws, s). length s))" by simp
next
  fix ws :: "string list" and s w :: string
  assume "find (startsWith s) ws = Some w"
  then have "startsWith s w" by (auto simp: find_Some_iff)
  then have "w \<noteq> []" and "length (take (length w) s) = length w"
    by (simp_all add: startsWith_def)
  then have "0 < length w" and "length w \<le> length s" by auto
  then have "length s - length w < length s" by linarith
  then show "((ws, drop (length w) s), (ws, s)) \<in> measure (\<lambda>(ws, s). length s)"
    by simp
qed

declare dropLeading.simps [simp del]

text \<open>\<open>String.prototype.trim\<close>: the white space is stripped from the front, and, on the
  reversed string with the reversed encodings, from the end.\<close>

definition trim :: "string \<Rightarrow> string" where
  "trim s = rev (dropLeading (map rev whiteSpace) (rev (dropLeading whiteSpace s)))"

definition toLowerAscii :: "char \<Rightarrow> char" where
  "toLowerAscii c =
     (let n = (of_char c :: nat) in if 65 \<le> n \<and> n \<le> 90 then char_of (n + 32) else c)"

text \<open>The regular expression \<open>/^https?:\/\//i\<close> of \<open>vercel/backup/import.ts\<close>.\<close>

definition matchesHttpScheme :: "string \<Rightarrow> bool" where
  "matchesHttpScheme s =
     (let l = map toLowerAscii s in take 7 l = ''http://'' \<or> take 8 l = ''https://'')"


section \<open>The Express backend (\<open>backend/index.js\<close>)\<close>

type_synonym timestamp = nat

text \<open>\<open>sanitizeText\<close>: \<open>null\<close> and \<open>undefined\<close> give \<open>undefined\<close>, anything else is
  converted to a string and trimmed, and an empty result gives \<open>undefined\<close>.\<close>

definition sanitizeText :: "jsval \<Rightarrow> string option" where
  "sanitizeText v =
     (if v = Null \<or> v = Undefined then None
      else (let trimmed = trim (String v) in if length trimmed \<noteq> 0 then Some trimmed else None))"

text \<open>\<open>sanitizeUrl\<close> of the Express backend: \<open>String(value ?? '').trim()\<close>.\<close>

definition sanitizeUrl :: "jsval \<Rightarrow> string" where
  "sanitizeUrl v = trim (String (if v = Null \<or> v = Undefined then Str [] else v))"

text \<open>A bookmark object of \<open>data/bookmarks.json\<close>. The title is optional in the stored
  object because \<open>sanitizeText\<close> may return \<open>undefined\<close>.\<close>

record file_bookmark =
  fb_id :: string
  fb_title :: "string option"
  fb_url :: string
  fb_category :: "string option"
  fb_description :: "string option"
  fb_visible :: bool
  fb_createdAt :: timestamp
  fb_updatedAt :: timestamp

text \<open>The destructured request body \<open>{ title, url, category, description, visible }\<close>.\<close>

record create_body =
  body_title :: jsval
  body_url :: jsval
  body_category :: jsval
  body_description :: jsval
  body_visible :: jsval

datatype http_response = BadRequest | Created file_bookmark

fun status :: "http_response \<Rightarrow> nat" where
  "status BadRequest = 400"
| "status (Created b) = 201"

text \<open>
  The handler of \<open>POST /api/bookmarks\<close>, after \<open>authenticate\<close> has let the request
  through. \<open>uuid\<close> is the result of \<open>randomUUID()\<close>, \<open>now\<close> the current time, and the last
  argument the content of the bookmarks file; the handler returns the response and the
  content of the file afterwards. Failures of the file system are not modelled.
\<close>

definition post_api_bookmarks ::
  "string \<Rightarrow> timestamp \<Rightarrow> create_body \<Rightarrow> file_bookmark list \<Rightarrow> http_response \<times> file_bookmark list" where
  "post_api_bookmarks uuid now body bookmarksFile =
     (if \<not> truthy (body_title body) \<or> \<not> truthy (body_url body) then (BadRequest, bookmarksFile)
      else
        (let newBookmark = \<lparr>
               fb_id = uuid,
               fb_title = sanitizeText (body_title body),
               fb_url = sanitizeUrl (body_url body),
               fb_category = sanitizeText (body_category body),
               fb_description = sanitizeText (body_description body),
               fb_visible = (case body_visible body of Bool b \<Rightarrow> b | _ \<Rightarrow> True),
               fb_createdAt = now,
               fb_updatedAt = now \<rparr>
         in (Created newBookmark, bookmarksFile @ [newBookmark])))"


section \<open>The import handler (\<open>vercel/backup/import.ts\<close>)\<close>

definition sanitizeUrl_import :: "string \<Rightarrow> string" where
  "sanitizeUrl_import url =
     (let trimmed = trim url in
      if trimmed = [] then []
      else if matchesHttpScheme trimmed then trimmed
      else ''https://'' @ trimmed)"

text \<open>One element of \<open>body.bookmarks\<close>, as parsed from the request.\<close>

record import_item =
  it_title :: jsval
  it_url :: jsval
  it_category :: jsval
  it_description :: jsval
  it_visible :: jsval

text \<open>The argument the handler passes to \<open>createBookmark\<close>. The \<open>visible\<close> field is kept
  as the JavaScript value the handler computes.\<close>

record import_args =
  a_title :: string
  a_url :: string
  a_category :: "string option"
  a_description :: "string option"
  a_visible :: jsval

text \<open>What the loop body does with one element: it skips the element with an error
  message, throws a \<open>TypeError\<close> that the \<open>catch\<close> of the loop body records (calling
  \<open>trim\<close> on a value that is not a string), or calls \<open>createBookmark\<close>.\<close>

datatype import_outcome = SkipEmpty | SkipBadUrl | ThrowsTypeError | CallCreate import_args

text \<open>\<open>x?.trim() || undefined\<close>: the outer \<open>None\<close> is the \<open>TypeError\<close>.\<close>

fun optional_trim :: "jsval \<Rightarrow> string option option" where
  "optional_trim Undefined = Some None"
| "optional_trim Null = Some None"
| "optional_trim (Str s) = Some (if trim s \<noteq> [] then Some (trim s) else None)"
| "optional_trim (Bool b) = None"

definition import_bookmark :: "import_item \<Rightarrow> import_outcome" where
  "import_bookmark bookmarkData =
     (if \<not> truthy (it_title bookmarkData) \<or> \<not> truthy (it_url bookmarkData) then SkipEmpty
      else case it_url bookmarkData of
        Str u \<Rightarrow>
          (let url = sanitizeUrl_import u in
           if url = [] then SkipBadUrl
           else case it_title bookmarkData of
             Str t \<Rightarrow>
               (case optional_trim (it_category bookmarkData) of
                  None \<Rightarrow> ThrowsTypeError
                | Some category \<Rightarrow>
                    (case optional_trim (it_description bookmarkData) of
                       None \<Rightarrow> ThrowsTypeError
                     | Some description \<Rightarrow>
                         CallCreate \<lparr>
                           a_title = trim t,
                           a_url = url,
                           a_category = category,
                           a_description = description,
                           a_visible = (if it_visible bookmarkData \<noteq> Undefined
                                        then it_visible bookmarkData else Bool True) \<rparr>))
           | _ \<Rightarrow> ThrowsTypeError)
      | _ \<Rightarrow> ThrowsTypeError)"


section \<open>The relational backend (\<open>vercel/_lib/db.ts\<close>)\<close>

subsection \<open>Data\<close>

text \<open>
  A row of the table \<open>bookmarks\<close>. The column \<open>"order"\<close> is a 32-bit SQL \<open>INTEGER\<close>; its
  values are integers here, and the statement that can leave the range of the column,
  \<open>MAX("order") + 1\<close>, is rejected when it does (the indices that the reorder loops store
  are those of an array parsed from a request). \<open>created_at\<close> is the time of the
  insertion. The table is the list of its rows, and \<open>id\<close> is its primary key.
\<close>

record row =
  r_id :: string
  r_title :: string
  r_url :: string
  r_category :: "string option"
  r_description :: "string option"
  r_visible :: bool
  r_order :: int
  r_created_at :: timestamp

record BookmarkRecord =
  b_id :: string
  b_title :: string
  b_url :: string
  b_category :: "string option"
  b_description :: "string option"
  b_visible :: bool

record BookmarkInput =
  in_title :: string
  in_url :: string
  in_category :: "string option"
  in_description :: "string option"
  in_visible :: bool

record SettingsData =
  theme :: string
  siteTitle :: string
  siteIcon :: string

text \<open>\<open>Partial<SettingsData>\<close>: every field may be absent.\<close>

record PartialSettings =
  p_theme :: "string option"
  p_siteTitle :: "string option"
  p_siteIcon :: "string option"

text \<open>The default title and icon are not ASCII; they are given by their UTF-8 bytes.\<close>

definition DEFAULT_SETTINGS :: SettingsData where
  "DEFAULT_SETTINGS = \<lparr>
     theme = ''light'',
     siteTitle = [CHR 0xE4, CHR 0xB8, CHR 0xAA, CHR 0xE4, CHR 0xBA, CHR 0xBA,
                  CHR 0xE4, CHR 0xB9, CHR 0xA6, CHR 0xE7, CHR 0xAD, CHR 0xBE],
     siteIcon = [CHR 0xF0, CHR 0x9F, CHR 0x94, CHR 0x96] \<rparr>"

definition normalizeCategoryValue :: "string option \<Rightarrow> string option" where
  "normalizeCategoryValue v =
     (case v of
        None \<Rightarrow> None
      | Some s \<Rightarrow>
          if s = [] then None
          else (let trimmed = trim s in if trimmed \<noteq> [] then Some trimmed else None))"

definition bookmarkCategoryKey :: "BookmarkRecord \<Rightarrow> string" where
  "bookmarkCategoryKey bookmark =
     (case normalizeCategoryValue (b_category bookmark) of Some c \<Rightarrow> c | None \<Rightarrow> [])"

fun normalizeCategoryKeyInput :: "jsval \<Rightarrow> string" where
  "normalizeCategoryKeyInput (Str s) = trim s"
| "normalizeCategoryKeyInput v = []"

subsection \<open>State, environment and the backup\<close>

text \<open>
  The state a call runs in: the two tables (the table \<open>settings\<close> holds at most the row
  \<open>'default'\<close>), the module variable \<open>tablesInitialized\<close>, and what was written with
  \<open>console.error\<close>. Failures of the SQL statements themselves are not modelled.
\<close>

datatype backup_key = BookmarksKey | SettingsKey

datatype payload = BookmarksPayload "BookmarkRecord list" | SettingsPayload SettingsData

datatype error = Error string

datatype log_entry = BackupFailed backup_key error

record world =
  bookmarks_table :: "row list"
  settings_table :: "SettingsData option"
  tablesInitialized :: bool
  console :: "log_entry list"

text \<open>
  The environment: the variable \<open>BACKUP_STORAGE_DRIVER\<close>, and \<open>backupWriteJson\<close> of
  \<open>storage.js\<close>, which is not among the sources and is a parameter here: for a key, the
  data and the driver it says whether the write throws (\<open>Some\<close> the error) or not.
\<close>

record env =
  BACKUP_STORAGE_DRIVER :: "string option"
  backupWriteJson :: "backup_key \<Rightarrow> payload \<Rightarrow> string \<Rightarrow> error option"

definition ensureTables :: "world \<Rightarrow> world" where
  "ensureTables w =
     (if tablesInitialized w then w
      else w\<lparr> settings_table :=
                 (case settings_table w of None \<Rightarrow> Some DEFAULT_SETTINGS | Some s \<Rightarrow> Some s),
              tablesInitialized := True \<rparr>)"

text \<open>The body of the \<open>try\<close> block of \<open>backupData\<close>: \<open>Inl\<close> is a thrown error.\<close>

definition backupData_try :: "env \<Rightarrow> backup_key \<Rightarrow> payload \<Rightarrow> error + unit" where
  "backupData_try e key data =
     (case BACKUP_STORAGE_DRIVER e of
        None \<Rightarrow> Inr ()
      | Some backupDriver \<Rightarrow>
          if backupDriver = [] \<or> backupDriver = ''none'' then Inr ()
          else (case backupWriteJson e key data backupDriver of
                  Some err \<Rightarrow> Inl err
                | None \<Rightarrow> Inr ()))"

text \<open>\<open>backupData\<close> with its \<open>catch\<close>, which logs the error. The result is a sum as for
  every asynchronous function of the module: \<open>Inl\<close> would be a rejected promise.\<close>

definition backupData :: "env \<Rightarrow> backup_key \<Rightarrow> payload \<Rightarrow> world \<Rightarrow> error + world" where
  "backupData e key data w =
     (case backupData_try e key data of
        Inl err \<Rightarrow> Inr (w\<lparr> console := console w @ [BackupFailed key err] \<rparr>)
      | Inr u \<Rightarrow> Inr w)"

subsection \<open>Reading\<close>

definition row_to_record :: "row \<Rightarrow> BookmarkRecord" where
  "row_to_record r = \<lparr>
     b_id = r_id r,
     b_title = r_title r,
     b_url = r_url r,
     b_category = normalizeCategoryValue (r_category r),
     b_description = r_description r,
     b_visible = r_visible r \<rparr>"

text \<open>
  \<open>SELECT ... FROM bookmarks ORDER BY "order" ASC, created_at ASC\<close>. PostgreSQL returns
  the rows sorted by the pair of the two columns and leaves open in which order it returns
  rows that agree on both. \<open>ordered_result t l\<close> says that \<open>l\<close> is a list that the
  statement may return on the table \<open>t\<close>. \<open>sql_select_ordered\<close> is one such list, the one
  that the operations below are followed with: the stable sort, in which rows that agree
  on both columns keep the order they have in the table. Where no two rows agree on both
  columns it is the only one (lemma \<open>ordered_result_unique\<close>).
\<close>

definition ordered_result :: "row list \<Rightarrow> row list \<Rightarrow> bool" where
  "ordered_result t l = (mset l = mset t \<and> sorted (map (\<lambda>r. (r_order r, r_created_at r)) l))"

definition sql_select_ordered :: "row list \<Rightarrow> row list" where
  "sql_select_ordered t = sort_key (\<lambda>r. (r_order r, r_created_at r)) t"

definition readBookmarksFromDb :: "world \<Rightarrow> BookmarkRecord list \<times> world" where
  "readBookmarksFromDb w =
     (let w1 = ensureTables w
      in (map row_to_record (sql_select_ordered (bookmarks_table w1)), w1))"

definition listBookmarks :: "world \<Rightarrow> BookmarkRecord list \<times> world" where
  "listBookmarks w = readBookmarksFromDb w"

definition readSettingsFromDb :: "world \<Rightarrow> SettingsData \<times> world" where
  "readSettingsFromDb w =
     (let w1 = ensureTables w
      in (case settings_table w1 of None \<Rightarrow> DEFAULT_SETTINGS | Some r \<Rightarrow> r, w1))"

subsection \<open>Settings\<close>

definition writeSettingsToDb :: "env \<Rightarrow> SettingsData \<Rightarrow> world \<Rightarrow> error + world" where
  "writeSettingsToDb e settings w =
     (let w1 = ensureTables w;
          w2 = w1\<lparr> settings_table := Some settings \<rparr>
      in backupData e SettingsKey (SettingsPayload settings) w2)"

definition updateSettings ::
  "env \<Rightarrow> PartialSettings \<Rightarrow> world \<Rightarrow> error + (SettingsData \<times> world)" where
  "updateSettings e partial w =
     (let (current, w1) = readSettingsFromDb w;
          next = \<lparr>
            theme = (case p_theme partial of Some v \<Rightarrow> v | None \<Rightarrow> theme current),
            siteTitle = (case p_siteTitle partial of Some v \<Rightarrow> v | None \<Rightarrow> siteTitle current),
            siteIcon = (case p_siteIcon partial of Some v \<Rightarrow> v | None \<Rightarrow> siteIcon current) \<rparr>
      in case writeSettingsToDb e next w1 of
           Inl err \<Rightarrow> Inl err
         | Inr w2 \<Rightarrow> Inr (next, w2))"

subsection \<open>Creating\<close>

text \<open>\<open>SELECT MAX("order") FROM bookmarks\<close>: \<open>NULL\<close> on the empty table.\<close>

fun sql_max_order :: "row list \<Rightarrow> int option" where
  "sql_max_order [] = None"
| "sql_max_order (r # rs) =
     (case sql_max_order rs of None \<Rightarrow> Some (r_order r) | Some m \<Rightarrow> Some (max (r_order r) m))"

text \<open>
  \<open>SELECT COALESCE(MAX("order"), -1) + 1 FROM bookmarks\<close>: the sum is computed in the
  32-bit type of the column, and PostgreSQL rejects the statement (integer out of range)
  when it exceeds 2147483647.
\<close>

definition sql_next_order :: "row list \<Rightarrow> error + int" where
  "sql_next_order t =
     (let m = (case sql_max_order t of None \<Rightarrow> - 1 | Some m \<Rightarrow> m)
      in if m + 1 > 2147483647 then Inl (Error ''integer out of range'') else Inr (m + 1))"

text \<open>
  The value of a query parameter as the driver sends it: \<open>null\<close> and \<open>undefined\<close> as
  \<open>NULL\<close>, any other value as the text that its \<open>toString()\<close> gives.
\<close>

fun pg_param :: "jsval \<Rightarrow> string option" where
  "pg_param Undefined = None"
| "pg_param Null = None"
| "pg_param (Bool b) = Some (String (Bool b))"
| "pg_param (Str s) = Some s"

text \<open>
  The input conversion of PostgreSQL's type \<open>boolean\<close>: white space (\<open>isspace\<close>: TAB, LF,
  VT, FF, CR, SPACE) around the text is ignored and case does not matter; a non-empty
  prefix of \<open>true\<close>, \<open>yes\<close> (true), \<open>false\<close>, \<open>no\<close> (false), a prefix of at least two
  characters of \<open>on\<close> (true) and \<open>off\<close> (false), and \<open>1\<close> (true) and \<open>0\<close> (false) are
  accepted; any other text is rejected.
\<close>

definition isspace :: "char \<Rightarrow> bool" where
  "isspace c =
     (c = CHR 0x09 \<or> c = CHR 0x0A \<or> c = CHR 0x0B \<or> c = CHR 0x0C \<or> c = CHR 0x0D \<or> c = CHR '' '')"

definition pg_boolean :: "string \<Rightarrow> bool option" where
  "pg_boolean s =
     (let v = map toLowerAscii (rev (dropWhile isspace (rev (dropWhile isspace s))));
          n = length v
      in if n = 0 then None
         else if take n ''true'' = v then Some True
         else if take n ''false'' = v then Some False
         else if take n ''yes'' = v then Some True
         else if take n ''no'' = v then Some False
         else if 2 \<le> n \<and> take n ''on'' = v then Some True
         else if 2 \<le> n \<and> take n ''off'' = v then Some False
         else if v = ''1'' then Some True
         else if v = ''0'' then Some False
         else None)"

text \<open>What the column \<open>visible BOOLEAN NOT NULL\<close> takes from a query parameter.\<close>

definition sql_boolean :: "jsval \<Rightarrow> error + bool" where
  "sql_boolean v =
     (case pg_param v of
        None \<Rightarrow> Inl (Error ''null value in column visible violates not-null constraint'')
      | Some txt \<Rightarrow>
          (case pg_boolean txt of
             None \<Rightarrow> Inl (Error ''invalid input syntax for type boolean'')
           | Some b \<Rightarrow> Inr b))"

text \<open>
  \<open>INSERT INTO bookmarks (id, title, url, category, description, visible, "order")\<close>:
  the statement is rejected when the parameter for \<open>visible\<close> is not accepted, and when
  the table has a row with the id already (\<open>id\<close> is the primary key); otherwise the row
  is added, with \<open>NOW()\<close> as its \<open>created_at\<close>.
\<close>

definition sql_insert_bookmark ::
  "string \<Rightarrow> string \<Rightarrow> string \<Rightarrow> string option \<Rightarrow> string option \<Rightarrow> jsval \<Rightarrow> int \<Rightarrow> timestamp
     \<Rightarrow> row list \<Rightarrow> error + row list" where
  "sql_insert_bookmark ident title url category description visible ord now t =
     (case sql_boolean visible of
        Inl err \<Rightarrow> Inl err
      | Inr b \<Rightarrow>
          if ident \<in> set (map r_id t)
          then Inl (Error ''duplicate key value violates unique constraint bookmarks_pkey'')
          else Inr (t @ [\<lparr>
                 r_id = ident,
                 r_title = title,
                 r_url = url,
                 r_category = category,
                 r_description = description,
                 r_visible = b,
                 r_order = ord,
                 r_created_at = now \<rparr>]))"

text \<open>\<open>uuid\<close> is the result of \<open>randomUUID()\<close> and \<open>now\<close> the value of \<open>NOW()\<close>. A
  statement that PostgreSQL rejects makes the function throw.\<close>

definition createBookmark ::
  "env \<Rightarrow> string \<Rightarrow> timestamp \<Rightarrow> BookmarkInput \<Rightarrow> world \<Rightarrow> error + (BookmarkRecord \<times> world)" where
  "createBookmark e uuid now data w =
     (let w1 = ensureTables w;
          bookmark = \<lparr>
            b_id = uuid,
            b_title = in_title data,
            b_url = in_url data,
            b_category = normalizeCategoryValue (in_category data),
            b_description = in_description data,
            b_visible = in_visible data \<rparr>
      in case sql_next_order (bookmarks_table w1) of
           Inl err \<Rightarrow> Inl err
         | Inr nextOrder \<Rightarrow>
            (case sql_insert_bookmark (b_id bookmark) (b_title bookmark) (b_url bookmark)
                    (b_category bookmark) (b_description bookmark) (Bool (b_visible bookmark))
                    nextOrder now (bookmarks_table w1) of
               Inl err \<Rightarrow> Inl err
             | Inr t' \<Rightarrow>
                 (let w2 = w1\<lparr> bookmarks_table := t' \<rparr>;
                      (allBookmarks, w3) = readBookmarksFromDb w2
                  in case backupData e BookmarksKey (BookmarksPayload allBookmarks) w3 of
                       Inl err \<Rightarrow> Inl err
                     | Inr w4 \<Rightarrow> Inr (bookmark, w4))))"

text \<open>
  \<open>createBookmark\<close> as the import handler calls it. The handler builds the argument from
  the parsed request, so that its \<open>visible\<close> may be any value, whatever the declared type
  of the argument says; the handler does not use the bookmark object that is returned, and
  the result here is the state.
\<close>

definition createBookmark_js ::
  "env \<Rightarrow> string \<Rightarrow> timestamp \<Rightarrow> import_args \<Rightarrow> world \<Rightarrow> error + world" where
  "createBookmark_js e uuid now data w =
     (let w1 = ensureTables w
      in case sql_next_order (bookmarks_table w1) of
           Inl err \<Rightarrow> Inl err
         | Inr nextOrder \<Rightarrow>
            (case sql_insert_bookmark uuid (a_title data) (a_url data)
                    (normalizeCategoryValue (a_category data)) (a_description data) (a_visible data)
                    nextOrder now (bookmarks_table w1) of
               Inl err \<Rightarrow> Inl err
             | Inr t' \<Rightarrow>
                 (let w2 = w1\<lparr> bookmarks_table := t' \<rparr>;
                      (allBookmarks, w3) = readBookmarksFromDb w2
                  in backupData e BookmarksKey (BookmarksPayload allBookmarks) w3)))"


subsection \<open>Reordering bookmarks\<close>

text \<open>\<open>UPDATE bookmarks SET "order" = i WHERE id = x\<close>.\<close>

definition sql_update_order :: "int \<Rightarrow> string \<Rightarrow> row list \<Rightarrow> row list" where
  "sql_update_order i x t = map (\<lambda>r. if r_id r = x then r\<lparr> r_order := i \<rparr> else r) t"

text \<open>The loop \<open>for (let i = 0; i < order.length; i++)\<close> over the ids, from index \<open>i\<close> on.\<close>

fun update_order_loop :: "nat \<Rightarrow> string list \<Rightarrow> row list \<Rightarrow> row list" where
  "update_order_loop i [] t = t"
| "update_order_loop i (x # xs) t = update_order_loop (Suc i) xs (sql_update_order (int i) x t)"

definition reorderBookmarks ::
  "env \<Rightarrow> string list \<Rightarrow> world \<Rightarrow> error + (BookmarkRecord list \<times> world)" where
  "reorderBookmarks e order' w =
     (let w1 = ensureTables w;
          w2 = w1\<lparr> bookmarks_table := update_order_loop 0 order' (bookmarks_table w1) \<rparr>;
          (reordered, w3) = readBookmarksFromDb w2
      in case backupData e BookmarksKey (BookmarksPayload reordered) w3 of
           Inl err \<Rightarrow> Inl err
         | Inr w4 \<Rightarrow> Inr (reordered, w4))"

subsection \<open>Reordering categories\<close>

text \<open>The four \<open>forEach\<close> loops of \<open>reorderBookmarkCategories\<close>, each as the function
  that one iteration applies to the variables it changes.\<close>

definition group_step ::
  "(string \<rightharpoonup> BookmarkRecord list) \<times> string list \<Rightarrow> BookmarkRecord
     \<Rightarrow> (string \<rightharpoonup> BookmarkRecord list) \<times> string list" where
  "group_step st bookmark =
     (let (categoryMap, originalOrder) = st;
          key = bookmarkCategoryKey bookmark
      in case categoryMap key of
           None \<Rightarrow> (categoryMap(key \<mapsto> [bookmark]), originalOrder @ [key])
         | Some items \<Rightarrow> (categoryMap(key \<mapsto> items @ [bookmark]), originalOrder))"

definition requested_step ::
  "(string \<rightharpoonup> BookmarkRecord list) \<Rightarrow> string list \<Rightarrow> jsval \<Rightarrow> string list" where
  "requested_step categoryMap requestedOrder v =
     (let key = normalizeCategoryKeyInput v
      in if categoryMap key \<noteq> None \<and> key \<notin> set requestedOrder
         then requestedOrder @ [key] else requestedOrder)"

definition remaining_step :: "string list \<Rightarrow> string \<Rightarrow> string list" where
  "remaining_step requestedOrder key =
     (if key \<notin> set requestedOrder then requestedOrder @ [key] else requestedOrder)"

definition push_items_step ::
  "(string \<rightharpoonup> BookmarkRecord list) \<Rightarrow> BookmarkRecord list \<Rightarrow> string \<Rightarrow> BookmarkRecord list" where
  "push_items_step categoryMap reordered key =
     (case categoryMap key of Some items \<Rightarrow> reordered @ items | None \<Rightarrow> reordered)"

text \<open>The list \<open>reordered\<close> that the function computes from the bookmarks it has read.\<close>

definition reorder_by_categories :: "jsval list \<Rightarrow> BookmarkRecord list \<Rightarrow> BookmarkRecord list" where
  "reorder_by_categories order' bookmarks =
     (let (categoryMap, originalOrder) = foldl group_step (Map.empty, []) bookmarks;
          requestedOrder1 = foldl (requested_step categoryMap) [] order';
          requestedOrder = foldl remaining_step requestedOrder1 originalOrder
      in foldl (push_items_step categoryMap) [] requestedOrder)"

definition reorderBookmarkCategories ::
  "env \<Rightarrow> jsval list \<Rightarrow> world \<Rightarrow> error + (BookmarkRecord list \<times> world)" where
  "reorderBookmarkCategories e order' w =
     (let w1 = ensureTables w;
          (bookmarks, w2) = readBookmarksFromDb w1;
          reordered = reorder_by_categories order' bookmarks;
          w3 = w2\<lparr> bookmarks_table :=
                     update_order_loop 0 (map b_id reordered) (bookmarks_table w2) \<rparr>
      in case backupData e BookmarksKey (BookmarksPayload reordered) w3 of
           Inl err \<Rightarrow> Inl err
         | Inr w4 \<Rightarrow> Inr (reordered, w4))"

subsection \<open>Updating and deleting\<close>

definition updateBookmark ::
  "env \<Rightarrow> string \<Rightarrow> BookmarkInput \<Rightarrow> world \<Rightarrow> error + (BookmarkRecord option \<times> world)" where
  "updateBookmark e ident data w =
     (let w1 = ensureTables w
      in if filter (\<lambda>r. r_id r = ident) (bookmarks_table w1) = [] then Inr (None, w1)
         else
           (let w2 = w1\<lparr> bookmarks_table :=
                  map (\<lambda>r. if r_id r = ident
                            then r\<lparr> r_title := in_title data,
                                    r_url := in_url data,
                                    r_category := normalizeCategoryValue (in_category data),
                                    r_description := in_description data,
                                    r_visible := in_visible data \<rparr>
                            else r) (bookmarks_table w1) \<rparr>
            in case filter (\<lambda>r. r_id r = ident) (bookmarks_table w2) of
                 [] \<Rightarrow> Inl (Error ''TypeError'')
               | r # rest \<Rightarrow>
                   (let updated = row_to_record r;
                        (allBookmarks, w3) = readBookmarksFromDb w2
                    in case backupData e BookmarksKey (BookmarksPayload allBookmarks) w3 of
                         Inl err \<Rightarrow> Inl err
                       | Inr w4 \<Rightarrow> Inr (Some updated, w4))))"

definition deleteBookmark ::
  "env \<Rightarrow> string \<Rightarrow> world \<Rightarrow> error + (BookmarkRecord option \<times> world)" where
  "deleteBookmark e ident w =
     (let w1 = ensureTables w
      in case filter (\<lambda>r. r_id r = ident) (bookmarks_table w1) of
           [] \<Rightarrow> Inr (None, w1)
         | r # rest \<Rightarrow>
             (let removed = row_to_record r;
                  w2 = w1\<lparr> bookmarks_table :=
                         filter (\<lambda>r. r_id r \<noteq> ident) (bookmarks_table w1) \<rparr>;
                  (allBookmarks, w3) = readBookmarksFromDb w2
              in case backupData e BookmarksKey (BookmarksPayload allBookmarks) w3 of
                   Inl err \<Rightarrow> Inl err
                 | Inr w4 \<Rightarrow> Inr (Some removed, w4)))"


section \<open>The JSON document backend (\<open>api/_lib/db.ts\<close>)\<close>

record JsonBookmarkRecord =
  j_id :: string
  j_title :: string
  j_url :: string
  j_category :: "string option"
  j_description :: "string option"
  j_visible :: bool
  j_createdAt :: timestamp
  j_updatedAt :: timestamp

text \<open>
  Modelled from the spec: \<open>readJson\<close> and \<open>writeJson\<close> of \<open>storage.js\<close>, which is not
  among the sources. The store holds one JSON document per key; a read returns the whole
  document, or the fallback it is given when the key has no document yet, and a write
  replaces the whole document.
\<close>

record json_store =
  doc_bookmarks :: "JsonBookmarkRecord list option"
  doc_settings :: "SettingsData option"



definition loadSettings :: "json_store \<Rightarrow> SettingsData" where
  "loadSettings s = (case doc_settings s of None \<Rightarrow> DEFAULT_SETTINGS | Some v \<Rightarrow> v)"

definition saveSettings :: "SettingsData \<Rightarrow> json_store \<Rightarrow> json_store" where
  "saveSettings v s = s\<lparr> doc_settings := Some v \<rparr>"


definition updateSettings_json :: "PartialSettings \<Rightarrow> json_store \<Rightarrow> SettingsData \<times> json_store" where
  "updateSettings_json partial s =
     (let current = loadSettings s;
          next = \<lparr>
            theme = (case p_theme partial of Some v \<Rightarrow> v | None \<Rightarrow> theme current),
            siteTitle = (case p_siteTitle partial of Some v \<Rightarrow> v | None \<Rightarrow> siteTitle current),
            siteIcon = (case p_siteIcon partial of Some v \<Rightarrow> v | None \<Rightarrow> siteIcon current) \<rparr>
      in (next, saveSettings next s))"




section \<open>Notions used in the statements\<close>

text \<open>The last index at or after \<open>i\<close> at which \<open>x\<close> stands in the list of ids, where the
  first element of the list has index \<open>i\<close>.\<close>

fun last_index :: "nat \<Rightarrow> string list \<Rightarrow> string \<Rightarrow> nat option" where
  "last_index i [] x = None"
| "last_index i (y # ys) x =
     (case last_index (Suc i) ys x of
        Some j \<Rightarrow> Some j
      | None \<Rightarrow> if x = y then Some i else None)"

text \<open>What the loop over the ids makes of one row: the row gets the last index at which
  its id stands in the list, and stays as it is when its id is not in the list.\<close>

definition row_after :: "nat \<Rightarrow> string list \<Rightarrow> row \<Rightarrow> row" where
  "row_after i ids r =
     (case last_index i ids (r_id r) of None \<Rightarrow> r | Some j \<Rightarrow> r\<lparr> r_order := int j \<rparr>)"

text \<open>The entries that one call of \<open>backupData\<close> adds to the console.\<close>

definition backup_log :: "env \<Rightarrow> backup_key \<Rightarrow> payload \<Rightarrow> log_entry list" where
  "backup_log e key data =
     (case backupData_try e key data of Inl err \<Rightarrow> [BackupFailed key err] | Inr u \<Rightarrow> [])"

text \<open>The same environment with a backup store whose writes never fail.\<close>

definition reliable_backup :: "env \<Rightarrow> env" where
  "reliable_backup e = e\<lparr> backupWriteJson := (\<lambda>key data driver. None) \<rparr>"

text \<open>Two rows agree on every column but \<open>"order"\<close>.\<close>

definition same_but_order :: "row \<Rightarrow> row \<Rightarrow> bool" where
  "same_but_order r r' =
     (r_id r' = r_id r \<and> r_title r' = r_title r \<and> r_url r' = r_url r \<and>
      r_category r' = r_category r \<and> r_description r' = r_description r \<and>
      r_visible r' = r_visible r \<and> r_created_at r' = r_created_at r)"


text \<open>The elements of a list in the order of their first occurrence.\<close>

fun first_seen :: "'a list \<Rightarrow> 'a list" where
  "first_seen [] = []"
| "first_seen (x # xs) = x # filter (\<lambda>y. y \<noteq> x) (first_seen xs)"






section \<open>Sample data\<close>

definition example_rows :: "row list" where
  "example_rows =
     [\<lparr> r_id = ''a'', r_title = ''Alpha'', r_url = ''https://a.example'', r_category = Some ''work'',
         r_description = None, r_visible = True, r_order = 0, r_created_at = 1 \<rparr>,
      \<lparr> r_id = ''b'', r_title = ''Beta'', r_url = ''https://b.example'', r_category = Some ''news'',
         r_description = None, r_visible = True, r_order = 1, r_created_at = 2 \<rparr>,
      \<lparr> r_id = ''c'', r_title = ''Gamma'', r_url = ''https://c.example'', r_category = Some ''work'',
         r_description = None, r_visible = False, r_order = 2, r_created_at = 3 \<rparr>]"

definition example_world :: world where
  "example_world = \<lparr> bookmarks_table = example_rows, settings_table = None,
                      tablesInitialized = False, console = [] \<rparr>"

text \<open>An environment with a backup store configured, every write to which fails.\<close>

definition example_env :: env where
  "example_env = \<lparr> BACKUP_STORAGE_DRIVER = Some ''s3'',
                    backupWriteJson = (\<lambda>key data driver. Some (Error ''write failed'')) \<rparr>"

definition example_input :: BookmarkInput where
  "example_input = \<lparr> in_title = ''New'', in_url = ''https://n.example'', in_category = None,
                      in_description = None, in_visible = True \<rparr>"



text \<open>A state with settings that are not the default ones.\<close>

definition example_settings :: SettingsData where
  "example_settings = \<lparr> theme = ''light'', siteTitle = ''My links'', siteIcon = ''star.png'' \<rparr>"

definition example_world_settings :: world where
  "example_world_settings = \<lparr> bookmarks_table = [], settings_table = Some example_settings,
                               tablesInitialized = True, console = [] \<rparr>"

definition example_store_settings :: json_store where
  "example_store_settings = \<lparr> doc_bookmarks = None, doc_settings = Some example_settings \<rparr>"

text \<open>What a caller sees of the result of an operation of the relational backend: the
  ids in the order in which \<open>listBookmarks\<close> returns them afterwards, and the order
  value stored with each id.\<close>

definition list_after :: "error + ('a \<times> world) \<Rightarrow> string list option" where
  "list_after r =
     (case r of Inl err \<Rightarrow> None | Inr (x, w') \<Rightarrow> Some (map b_id (fst (listBookmarks w'))))"

definition stored_visible :: "error + world \<Rightarrow> (string \<times> bool) list option" where
  "stored_visible r =
     (case r of
        Inl err \<Rightarrow> None
      | Inr w' \<Rightarrow> Some (map (\<lambda>r. (r_id r, r_visible r)) (bookmarks_table w')))"

definition stored_orders :: "error + ('a \<times> world) \<Rightarrow> (string \<times> int) list option" where
  "stored_orders r =
     (case r of
        Inl err \<Rightarrow> None
      | Inr (x, w') \<Rightarrow> Some (map (\<lambda>r. (r_id r, r_order r)) (bookmarks_table w')))"


section \<open>The loop that assigns the order values\<close>

lemma update_order_loop_map: "update_order_loop i ids t = map (row_after i ids) t"
proof (induction ids arbitrary: i t)
  case Nil
  show ?case by (simp add: row_after_def)
next
  case (Cons x xs)
  have "row_after (Suc i) xs (if r_id r = x then r\<lparr> r_order := int i \<rparr> else r) = row_after i (x # xs) r" for r
    by (simp add: row_after_def split: option.splits)
  then show ?case
    by (simp add: Cons.IH sql_update_order_def)
qed

lemma last_index_None: "last_index i ids x = None \<longleftrightarrow> x \<notin> set ids"
  by (induction ids arbitrary: i) (auto split: option.splits, (metis option.distinct(1))+)

lemma last_index_distinct:
  "distinct ids \<Longrightarrow> k < length ids \<Longrightarrow> last_index i ids (ids ! k) = Some (i + k)"
proof (induction ids arbitrary: i k)
  case Nil
  then show ?case by simp
next
  case (Cons y ys)
  show ?case
  proof (cases k)
    case 0
    with Cons.prems have "last_index (Suc i) ys y = None" by (simp add: last_index_None)
    with 0 show ?thesis by simp
  next
    case (Suc k')
    with Cons.prems have "last_index (Suc i) ys (ys ! k') = Some (Suc i + k')"
      by (intro Cons.IH) auto
    with Suc show ?thesis by simp
  qed
qed

lemma row_after_id: "r_id (row_after i ids r) = r_id r"
  by (simp add: row_after_def split: option.splits)

lemma row_after_idem: "row_after i ids (row_after i ids r) = row_after i ids r"
  by (simp add: row_after_def split: option.splits)

lemma row_after_same: "same_but_order r (row_after i ids r)"
  by (simp add: row_after_def same_but_order_def split: option.splits)

lemma row_after_notin: "r_id r \<notin> set ids \<Longrightarrow> row_after i ids r = r"
  by (simp add: row_after_def last_index_None[THEN iffD2])

lemma row_to_record_after: "row_to_record (row_after i ids r) = row_to_record r"
  by (simp add: row_after_def row_to_record_def split: option.splits)

text \<open>When the ids passed are those of all the rows, each once, the rows are read back
  in the order of the ids, with the order values \<open>0, 1, ...\<close>.\<close>

lemma select_after_permutation:
  assumes d: "distinct (map r_id L)" and m: "mset L = mset t"
  shows "sql_select_ordered (update_order_loop 0 (map r_id L) t) =
           map (\<lambda>k. (L ! k)\<lparr> r_order := int k \<rparr>) [0..<length L]"
proof -
  let ?ids = "map r_id L"
  let ?f = "row_after 0 ?ids"
  let ?key = "\<lambda>r. (r_order r, r_created_at r)"
  have f_nth: "?f (L ! k) = (L ! k)\<lparr> r_order := int k \<rparr>" if "k < length L" for k
    using last_index_distinct[OF d, of k 0] that by (simp add: row_after_def)
  have ys: "map ?f L = map (\<lambda>k. (L ! k)\<lparr> r_order := int k \<rparr>) [0..<length L]"
    by (rule nth_equalityI) (simp_all add: f_nth)
  have ms: "mset (map ?f t) = mset (map ?f L)"
    using m by (metis mset_map)
  have inj: "inj_on ?key (set (map ?f t))"
  proof (rule inj_onI)
    fix a b assume a: "a \<in> set (map ?f t)" and b: "b \<in> set (map ?f t)" and e: "?key a = ?key b"
    from a ms have "a \<in> set (map ?f L)" by (metis set_mset_mset)
    then obtain i where i: "i < length L" "a = ?f (L ! i)" by (auto simp: in_set_conv_nth)
    from b ms have "b \<in> set (map ?f L)" by (metis set_mset_mset)
    then obtain j where j: "j < length L" "b = ?f (L ! j)" by (auto simp: in_set_conv_nth)
    from e i j have "i = j" by (simp add: f_nth)
    with i j show "a = b" by simp
  qed
  have srt: "sorted (map ?key (map ?f L))"
    unfolding ys by (auto simp add: sorted_iff_nth_mono o_def le_eq_less_or_eq)
  have "sort_key ?key (map ?f t) = map ?f L"
    by (rule sort_key_inj_key_eq[OF ms inj srt])
  then show ?thesis
    by (simp add: sql_select_ordered_def update_order_loop_map ys)
qed



section \<open>Strings\<close>







text \<open>The trims of the strings that the examples below use.\<close>

lemma trim_examples:
  "trim ''Example'' = ''Example''"
  "trim ''example.com'' = ''example.com''"
  "trim ''https://x.com'' = ''https://x.com''"
  "trim ''HTTP://x.com'' = ''HTTP://x.com''"
  "trim ''   '' = []"
  "trim ''T'' = ''T''"
  "trim ''u.com'' = ''u.com''"
  "trim ''work'' = ''work''"
  "trim ''news'' = ''news''"
  "trim '' news '' = ''news''"
  "trim ''none'' = ''none''"
  by (simp_all add: trim_def dropLeading.simps whiteSpace_def startsWith_def)

lemma trim_unicode_example:
  "trim [CHR 0xC2, CHR 0xA0, CHR ''a'', CHR 0xE2, CHR 0x80, CHR 0xA8, CHR 0x20] = ''a''"
  by (simp add: trim_def dropLeading.simps whiteSpace_def startsWith_def)



section \<open>The operations of the relational backend, unfolded\<close>

lemma ensureTables_bookmarks [simp]: "bookmarks_table (ensureTables w) = bookmarks_table w"
  by (simp add: ensureTables_def)

lemma ensureTables_console [simp]: "console (ensureTables w) = console w"
  by (simp add: ensureTables_def)

lemma ensureTables_init [simp]: "tablesInitialized (ensureTables w)"
  by (simp add: ensureTables_def)

lemma ensureTables_done [simp]: "tablesInitialized w \<Longrightarrow> ensureTables w = w"
  by (simp add: ensureTables_def)

lemma ensureTables_upd_bookmarks [simp]:
  "ensureTables (w\<lparr> bookmarks_table := t \<rparr>) = (ensureTables w)\<lparr> bookmarks_table := t \<rparr>"
  by (simp add: ensureTables_def)

text \<open>\<open>backupData\<close> never fails: it returns the state, with the error logged if there
  was one.\<close>

lemma backupData_eq:
  "backupData e key data w = Inr (w\<lparr> console := console w @ backup_log e key data \<rparr>)"
  by (simp add: backupData_def backup_log_def split: sum.splits)

lemma backup_log_reliable [simp]: "backup_log (reliable_backup e) key data = []"
  by (simp add: backup_log_def backupData_try_def reliable_backup_def split: option.splits)

lemma listBookmarks_fst:
  "fst (listBookmarks w) = map row_to_record (sql_select_ordered (bookmarks_table w))"
  by (simp add: listBookmarks_def readBookmarksFromDb_def Let_def)

lemma readSettings_fst:
  "fst (readSettingsFromDb w) =
     (case settings_table (ensureTables w) of None \<Rightarrow> DEFAULT_SETTINGS | Some r \<Rightarrow> r)"
  by (simp add: readSettingsFromDb_def Let_def)

lemma b_id_row_to_record [simp]: "b_id (row_to_record r) = r_id r"
  by (simp add: row_to_record_def)

lemma b_id_comp_row_to_record [simp]: "b_id \<circ> row_to_record = r_id"
  by (rule ext) simp

lemma reorderBookmarks_eq:
  "reorderBookmarks e ids w =
     (let t' = update_order_loop 0 ids (bookmarks_table w);
          l = map row_to_record (sql_select_ordered t')
      in Inr (l, (ensureTables w)\<lparr> bookmarks_table := t',
                   console := console w @ backup_log e BookmarksKey (BookmarksPayload l) \<rparr>))"
  by (simp add: reorderBookmarks_def readBookmarksFromDb_def backupData_eq Let_def)

lemma sql_max_order_Max: "t \<noteq> [] \<Longrightarrow> sql_max_order t = Some (Max (r_order ` set t))"
proof (induction t)
  case Nil
  then show ?case by simp
next
  case (Cons r rs)
  show ?case
  proof (cases "rs = []")
    case True
    then show ?thesis by simp
  next
    case False
    with Cons.IH have "sql_max_order rs = Some (Max (r_order ` set rs))" by simp
    with False show ?thesis by (simp add: max_def)
  qed
qed

lemma sql_max_order_mem: "sql_max_order t = Some m \<Longrightarrow> m \<in> r_order ` set t"
  by (induction t arbitrary: m) (auto split: option.splits simp: max_def)

lemma sql_next_order_ok:
  assumes "\<forall>r\<in>set t. r_order r < 2147483647"
  shows "sql_next_order t = Inr ((case sql_max_order t of None \<Rightarrow> - 1 | Some m \<Rightarrow> m) + 1)"
proof (cases "sql_max_order t")
  case None
  then show ?thesis by (simp add: sql_next_order_def)
next
  case (Some m)
  then have "m \<in> r_order ` set t" by (rule sql_max_order_mem)
  with assms have "m < 2147483647" by auto
  with Some show ?thesis by (simp add: sql_next_order_def)
qed

lemma sql_boolean_Bool [simp]: "sql_boolean (Bool b) = Inr b"
  by (cases b) (simp_all add: sql_boolean_def pg_boolean_def isspace_def toLowerAscii_def)

lemma createBookmark_js_eq:
  assumes "uuid \<notin> r_id ` set (bookmarks_table w)"
    and "\<forall>r\<in>set (bookmarks_table w). r_order r < 2147483647"
    and "sql_boolean (a_visible data) = Inr b"
  shows "createBookmark_js e uuid now data w =
     (let t' = bookmarks_table w @ [\<lparr>
                 r_id = uuid, r_title = a_title data, r_url = a_url data,
                 r_category = normalizeCategoryValue (a_category data),
                 r_description = a_description data, r_visible = b,
                 r_order = (case sql_max_order (bookmarks_table w) of None \<Rightarrow> - 1 | Some m \<Rightarrow> m) + 1,
                 r_created_at = now \<rparr>]
      in Inr ((ensureTables w)\<lparr> bookmarks_table := t',
                   console := console w @ backup_log e BookmarksKey
                     (BookmarksPayload (map row_to_record (sql_select_ordered t'))) \<rparr>))"
  using assms
  by (simp add: createBookmark_js_def sql_insert_bookmark_def sql_next_order_ok
        readBookmarksFromDb_def backupData_eq Let_def)

lemma createBookmark_eq:
  assumes "uuid \<notin> r_id ` set (bookmarks_table w)"
    and "\<forall>r\<in>set (bookmarks_table w). r_order r < 2147483647"
  shows "createBookmark e uuid now data w =
     (let bookmark = \<lparr> b_id = uuid, b_title = in_title data, b_url = in_url data,
                        b_category = normalizeCategoryValue (in_category data),
                        b_description = in_description data, b_visible = in_visible data \<rparr>;
          t' = bookmarks_table w @ [\<lparr>
                 r_id = uuid, r_title = in_title data, r_url = in_url data,
                 r_category = normalizeCategoryValue (in_category data),
                 r_description = in_description data, r_visible = in_visible data,
                 r_order = (case sql_max_order (bookmarks_table w) of None \<Rightarrow> - 1 | Some m \<Rightarrow> m) + 1,
                 r_created_at = now \<rparr>]
      in Inr (bookmark, (ensureTables w)\<lparr> bookmarks_table := t',
                   console := console w @ backup_log e BookmarksKey
                     (BookmarksPayload (map row_to_record (sql_select_ordered t'))) \<rparr>))"
  using assms
  by (simp add: createBookmark_def sql_insert_bookmark_def sql_next_order_ok
        readBookmarksFromDb_def backupData_eq Let_def)

text \<open>When a statement is rejected, the function throws, whatever the backup store does.\<close>

lemma createBookmark_rejected:
  assumes "uuid \<in> r_id ` set (bookmarks_table w) \<or> (\<exists>r\<in>set (bookmarks_table w). 2147483647 \<le> r_order r)"
  shows "\<exists>err. createBookmark e uuid now data w = Inl err
           \<and> createBookmark e' uuid now data w = Inl err"
proof (cases "sql_next_order (bookmarks_table w)")
  case (Inl err)
  then show ?thesis by (simp add: createBookmark_def Let_def)
next
  case (Inr n)
  have "\<not> (\<exists>r\<in>set (bookmarks_table w). 2147483647 \<le> r_order r)"
  proof
    assume "\<exists>r\<in>set (bookmarks_table w). 2147483647 \<le> r_order r"
    then obtain r where r: "r \<in> set (bookmarks_table w)" "2147483647 \<le> r_order r" by blast
    then have "bookmarks_table w \<noteq> []" by auto
    then have m: "sql_max_order (bookmarks_table w) = Some (Max (r_order ` set (bookmarks_table w)))"
      by (rule sql_max_order_Max)
    from r have "2147483647 \<le> Max (r_order ` set (bookmarks_table w))"
      by (meson Max_ge finite_imageI finite_set imageI order_trans)
    with m have "\<exists>err. sql_next_order (bookmarks_table w) = Inl err"
      by (simp add: sql_next_order_def)
    with Inr show False by simp
  qed
  with assms have "uuid \<in> r_id ` set (bookmarks_table w)" by blast
  with Inr show ?thesis
    by (simp add: createBookmark_def sql_insert_bookmark_def Let_def)
qed

text \<open>The outcome of \<open>createBookmark\<close>: it returns when the id is new and the next order
  value fits the column, and throws otherwise.\<close>

lemma createBookmark_cases:
  "(uuid \<notin> r_id ` set (bookmarks_table w) \<and> (\<forall>r\<in>set (bookmarks_table w). r_order r < 2147483647))
   \<or> (uuid \<in> r_id ` set (bookmarks_table w) \<or> (\<exists>r\<in>set (bookmarks_table w). 2147483647 \<le> r_order r))"
  by (auto simp: not_less)

lemma updateSettings_eq:
  "updateSettings e partial w =
     (let current = (case settings_table (ensureTables w) of None \<Rightarrow> DEFAULT_SETTINGS | Some r \<Rightarrow> r);
          next = \<lparr>
            theme = (case p_theme partial of Some v \<Rightarrow> v | None \<Rightarrow> theme current),
            siteTitle = (case p_siteTitle partial of Some v \<Rightarrow> v | None \<Rightarrow> siteTitle current),
            siteIcon = (case p_siteIcon partial of Some v \<Rightarrow> v | None \<Rightarrow> siteIcon current) \<rparr>
      in Inr (next, (ensureTables w)\<lparr> settings_table := Some next,
                      console := console w @ backup_log e SettingsKey (SettingsPayload next) \<rparr>))"
  by (simp add: updateSettings_def readSettingsFromDb_def writeSettingsToDb_def backupData_eq Let_def)


section \<open>Reading the table back\<close>

lemma select_mset: "mset (sql_select_ordered t) = mset t"
  by (simp add: sql_select_ordered_def)

text \<open>\<open>sql_select_ordered\<close> is a list that the statement may return; it is the only one
  when no two rows agree on both the order value and the time of creation.\<close>

lemma ordered_result_select: "ordered_result t (sql_select_ordered t)"
  by (simp add: ordered_result_def sql_select_ordered_def)

lemma ordered_result_unique:
  assumes "inj_on (\<lambda>r. (r_order r, r_created_at r)) (set t)" and "ordered_result t l"
  shows "l = sql_select_ordered t"
proof -
  from assms(2) have "mset t = mset l" and "sorted (map (\<lambda>r. (r_order r, r_created_at r)) l)"
    by (simp_all add: ordered_result_def)
  with assms(1) have "sort_key (\<lambda>r. (r_order r, r_created_at r)) t = l"
    by (intro sort_key_inj_key_eq)
  then show ?thesis by (simp add: sql_select_ordered_def)
qed

text \<open>After the loop has run over the ids of all the rows, each once, no two rows have the
  same order value: the list that the statement returns is then determined.\<close>

lemma no_ties_after_permutation:
  assumes d: "distinct (map r_id L)" and m: "mset L = mset t"
  shows "inj_on (\<lambda>r. (r_order r, r_created_at r)) (set (update_order_loop 0 (map r_id L) t))"
proof -
  let ?t' = "update_order_loop 0 (map r_id L) t"
  let ?l = "map (\<lambda>k. (L ! k)\<lparr> r_order := int k \<rparr>) [0..<length L]"
  have s: "sql_select_ordered ?t' = ?l" by (rule select_after_permutation[OF d m])
  have "set ?t' = set (sql_select_ordered ?t')"
    using select_mset[of ?t'] by (metis set_mset_mset)
  then have e: "set ?t' = set ?l" by (simp only: s)
  show ?thesis
  proof (rule inj_onI)
    fix a b
    assume "a \<in> set ?t'" "b \<in> set ?t'"
      and k: "(r_order a, r_created_at a) = (r_order b, r_created_at b)"
    with e obtain i j where "a = (L ! i)\<lparr> r_order := int i \<rparr>" "b = (L ! j)\<lparr> r_order := int j \<rparr>"
      by auto
    with k show "a = b" by simp
  qed
qed

lemma ordered_result_after_permutation:
  assumes "distinct (map r_id L)" and "mset L = mset t"
    and "ordered_result (update_order_loop 0 (map r_id L) t) l"
  shows "l = sql_select_ordered (update_order_loop 0 (map r_id L) t)"
  using no_ties_after_permutation[OF assms(1,2)] assms(3) by (rule ordered_result_unique)


lemma select_full_noop:
  assumes "distinct (map r_id t)"
  shows "map row_to_record (sql_select_ordered (update_order_loop 0 (map r_id (sql_select_ordered t)) t))
         = map row_to_record (sql_select_ordered t)"
proof -
  let ?L = "sql_select_ordered t"
  have m: "mset ?L = mset t" by (rule select_mset)
  then have "mset (map r_id ?L) = mset (map r_id t)" by (metis mset_map)
  with assms have d: "distinct (map r_id ?L)" by (metis mset_eq_imp_distinct_iff)
  have "map row_to_record (map (\<lambda>k. (?L ! k)\<lparr> r_order := int k \<rparr>) [0..<length ?L]) = map row_to_record ?L"
    by (rule nth_equalityI) (simp_all add: row_to_record_def)
  then show ?thesis
    by (simp only: select_after_permutation[OF d m])
qed

lemma update_loop_idem:
  "update_order_loop 0 ids (update_order_loop 0 ids t) = update_order_loop 0 ids t"
  by (simp add: update_order_loop_map row_after_idem)

lemma update_loop_none:
  assumes "set ids \<inter> r_id ` set t = {}"
  shows "update_order_loop i ids t = t"
proof -
  have "row_after i ids r = r" if "r \<in> set t" for r
    using that assms by (intro row_after_notin) auto
  then show ?thesis
    by (simp add: update_order_loop_map map_idI)
qed



section \<open>Claims about reordering bookmarks\<close>

text \<open>
  Claim C1. The claim says that after \<open>reorderBookmarks(ids)\<close> the listed bookmarks come
  first, in the order of \<open>ids\<close>, that every bookmark not mentioned follows them in its
  old relative order, and that the order values are \<open>0, ..., N - 1\<close> without repeats.
  The code only updates the rows whose ids are listed; a row that is not listed keeps its
  old order value. On the three sample rows \<open>a\<close>, \<open>b\<close>, \<open>c\<close> with the order values
  \<open>0\<close>, \<open>1\<close>, \<open>2\<close>, the call \<open>reorderBookmarks(["c"])\<close> gives \<open>c\<close> the value \<open>0\<close>, which
  \<open>a\<close> has too: the list read back is \<open>a\<close>, \<open>c\<close>, \<open>b\<close> (not \<open>c\<close>, \<open>a\<close>, \<open>b\<close>), and
  the stored values are \<open>0\<close>, \<open>1\<close>, \<open>0\<close>.
\<close>

theorem reorderBookmarks_unlisted_keep_order_value:
  "list_after (reorderBookmarks example_env [''c''] example_world) = Some [''a'', ''c'', ''b'']
   \<and> stored_orders (reorderBookmarks example_env [''c''] example_world)
       = Some [(''a'', 0), (''b'', 1), (''c'', 0)]"
  by (simp add: list_after_def stored_orders_def reorderBookmarks_eq Let_def listBookmarks_fst
        example_world_def example_rows_def sql_update_order_def sql_select_ordered_def)

text \<open>
  Claim C5. \<open>reorderBookmarks\<close> is idempotent. When the ids of the table are distinct (it
  is the primary key), the call with the ids of the current list, in the order of the
  list, returns the list as it was, and the list read afterwards is that list. For every
  sequence of ids, a second call with the same sequence returns the same list as the
  first, and the list read after either call is that list.
\<close>

theorem reorderBookmarks_idempotent:
  "(distinct (map r_id (bookmarks_table w)) \<longrightarrow>
      (\<exists>w'. reorderBookmarks e (map b_id (fst (listBookmarks w))) w = Inr (fst (listBookmarks w), w')
           \<and> fst (listBookmarks w') = fst (listBookmarks w)))
   \<and> (\<exists>l w1 w2. reorderBookmarks e ids w = Inr (l, w1)
           \<and> reorderBookmarks e' ids w1 = Inr (l, w2)
           \<and> fst (listBookmarks w1) = l \<and> fst (listBookmarks w2) = l)"
proof (intro conjI impI)
  assume d: "distinct (map r_id (bookmarks_table w))"
  have "map b_id (fst (listBookmarks w)) = map r_id (sql_select_ordered (bookmarks_table w))"
    by (simp add: listBookmarks_fst)
  then show "\<exists>w'. reorderBookmarks e (map b_id (fst (listBookmarks w))) w = Inr (fst (listBookmarks w), w')
           \<and> fst (listBookmarks w') = fst (listBookmarks w)"
    using select_full_noop[OF d]
    by (simp add: reorderBookmarks_eq listBookmarks_fst Let_def)
next
  show "\<exists>l w1 w2. reorderBookmarks e ids w = Inr (l, w1)
           \<and> reorderBookmarks e' ids w1 = Inr (l, w2)
           \<and> fst (listBookmarks w1) = l \<and> fst (listBookmarks w2) = l"
    by (simp add: reorderBookmarks_eq listBookmarks_fst Let_def update_loop_idem)
qed

theorem reorderBookmarks_idempotent_witness:
  "distinct (map r_id (bookmarks_table example_world))
   \<and> map b_id (fst (listBookmarks example_world)) = [''a'', ''b'', ''c'']
   \<and> (\<exists>w'. reorderBookmarks example_env [''a'', ''b'', ''c''] example_world
               = Inr (fst (listBookmarks example_world), w')
           \<and> fst (listBookmarks w') = fst (listBookmarks example_world))"
proof -
  have d: "distinct (map r_id (bookmarks_table example_world))"
    by (simp add: example_world_def example_rows_def)
  have l: "map b_id (fst (listBookmarks example_world)) = [''a'', ''b'', ''c'']"
    by (simp add: listBookmarks_fst example_world_def example_rows_def sql_select_ordered_def)
  from reorderBookmarks_idempotent[of example_world example_env] d l show ?thesis by simp
qed

text \<open>
  Claim C10. \<open>reorderBookmarks\<close> changes nothing but the column \<open>"order"\<close>. For every
  sequence of ids the call returns, the table has the same rows in the same places, each
  with all its other columns (id, title, url, category, description, visible, created_at)
  as before; a row whose id is not in the sequence is unchanged, so a sequence none of
  whose ids matches a row leaves the table as it was. The settings are not touched
  beyond what \<open>ensureTables\<close> does.
\<close>

theorem reorderBookmarks_frame:
  "\<exists>l w'. reorderBookmarks e ids w = Inr (l, w')
     \<and> length (bookmarks_table w') = length (bookmarks_table w)
     \<and> (\<forall>k < length (bookmarks_table w).
           same_but_order (bookmarks_table w ! k) (bookmarks_table w' ! k))
     \<and> (\<forall>k < length (bookmarks_table w).
           r_id (bookmarks_table w ! k) \<notin> set ids \<longrightarrow> bookmarks_table w' ! k = bookmarks_table w ! k)
     \<and> (set ids \<inter> r_id ` set (bookmarks_table w) = {} \<longrightarrow> bookmarks_table w' = bookmarks_table w)
     \<and> (\<forall>i x. x \<notin> r_id ` set (bookmarks_table w)
            \<longrightarrow> sql_update_order i x (bookmarks_table w) = bookmarks_table w)
     \<and> settings_table w' = settings_table (ensureTables w)"
proof -
  have "set ids \<inter> r_id ` set (bookmarks_table w) = {} \<longrightarrow>
          update_order_loop 0 ids (bookmarks_table w) = bookmarks_table w"
    by (simp add: update_loop_none)
  moreover have "\<forall>i x. x \<notin> r_id ` set (bookmarks_table w)
            \<longrightarrow> sql_update_order i x (bookmarks_table w) = bookmarks_table w"
    by (auto simp: sql_update_order_def intro!: map_idI)
  ultimately show ?thesis
    by (simp add: reorderBookmarks_eq Let_def)
       (simp add: update_order_loop_map row_after_same row_after_notin)
qed

theorem reorderBookmarks_frame_witness:
  "set [''zz''] \<inter> r_id ` set (bookmarks_table example_world) = {}
   \<and> (\<exists>l w'. reorderBookmarks example_env [''zz''] example_world = Inr (l, w')
         \<and> bookmarks_table w' = bookmarks_table example_world)
   \<and> 2 < length (bookmarks_table example_world)
   \<and> r_id (bookmarks_table example_world ! 0) \<notin> set [''c'', ''zz'']
   \<and> (\<exists>l w'. reorderBookmarks example_env [''c'', ''zz''] example_world = Inr (l, w')
         \<and> bookmarks_table w' ! 0 = bookmarks_table example_world ! 0
         \<and> same_but_order (bookmarks_table example_world ! 2) (bookmarks_table w' ! 2)
         \<and> r_order (bookmarks_table w' ! 2) = 0)"
proof -
  have d: "set [''zz''] \<inter> r_id ` set (bookmarks_table example_world) = {}"
    by (simp add: example_world_def example_rows_def)
  have n: "2 < length (bookmarks_table example_world)"
    by (simp add: example_world_def example_rows_def)
  have a: "r_id (bookmarks_table example_world ! 0) \<notin> set [''c'', ''zz'']"
    by (simp add: example_world_def example_rows_def)
  from reorderBookmarks_frame[of example_env "[''zz'']" example_world] d
  have 1: "\<exists>l w'. reorderBookmarks example_env [''zz''] example_world = Inr (l, w')
         \<and> bookmarks_table w' = bookmarks_table example_world"
    by blast
  from reorderBookmarks_frame[of example_env "[''c'', ''zz'']" example_world]
  obtain l w' where r: "reorderBookmarks example_env [''c'', ''zz''] example_world = Inr (l, w')"
    and s: "\<forall>k < length (bookmarks_table example_world).
              same_but_order (bookmarks_table example_world ! k) (bookmarks_table w' ! k)"
    and u: "\<forall>k < length (bookmarks_table example_world).
              r_id (bookmarks_table example_world ! k) \<notin> set [''c'', ''zz'']
              \<longrightarrow> bookmarks_table w' ! k = bookmarks_table example_world ! k"
    by (elim exE conjE) (rule that)
  have n0: "0 < length (bookmarks_table example_world)"
    by (simp add: example_world_def example_rows_def)
  from n0 a u have 2: "bookmarks_table w' ! 0 = bookmarks_table example_world ! 0" by blast
  from n s have 3: "same_but_order (bookmarks_table example_world ! 2) (bookmarks_table w' ! 2)"
    by blast
  from r have 4: "r_order (bookmarks_table w' ! 2) = 0"
    by (auto simp: reorderBookmarks_eq Let_def example_world_def example_rows_def
          sql_update_order_def)
  from r 2 3 4
  have 5: "\<exists>l w'. reorderBookmarks example_env [''c'', ''zz''] example_world = Inr (l, w')
         \<and> bookmarks_table w' ! 0 = bookmarks_table example_world ! 0
         \<and> same_but_order (bookmarks_table example_world ! 2) (bookmarks_table w' ! 2)
         \<and> r_order (bookmarks_table w' ! 2) = 0"
    by (intro exI[of _ l] exI[of _ w'] conjI)
  from d 1 n a 5 show ?thesis by (intro conjI)
qed


section \<open>Claims about creating a bookmark\<close>




text \<open>
  Claim C4. The claim says that \<open>create\<close> prefixes \<open>https://\<close> to a url without a
  scheme, so that \<open>example.com\<close> is stored as \<open>https://example.com\<close>. The \<open>sanitizeUrl\<close>
  of the Express backend only trims: \<open>POST /api/bookmarks\<close> with the url \<open>example.com\<close>
  answers 201 and stores the url \<open>example.com\<close>.
\<close>

theorem post_api_bookmarks_url_not_prefixed:
  "post_api_bookmarks ''id1'' 7
     \<lparr> body_title = Str ''Example'', body_url = Str ''example.com'', body_category = Undefined,
       body_description = Undefined, body_visible = Undefined \<rparr> []
   = (Created \<lparr> fb_id = ''id1'', fb_title = Some ''Example'', fb_url = ''example.com'',
                fb_category = None, fb_description = None, fb_visible = True,
                fb_createdAt = 7, fb_updatedAt = 7 \<rparr>,
      [\<lparr> fb_id = ''id1'', fb_title = Some ''Example'', fb_url = ''example.com'',
         fb_category = None, fb_description = None, fb_visible = True,
         fb_createdAt = 7, fb_updatedAt = 7 \<rparr>])"
  by (simp add: post_api_bookmarks_def sanitizeText_def sanitizeUrl_def trim_examples
        Let_def)

theorem post_api_bookmarks_url_not_prefixed_witness:
  "map fb_url (snd (post_api_bookmarks ''id1'' 7
     \<lparr> body_title = Str ''Example'', body_url = Str ''example.com'', body_category = Undefined,
       body_description = Undefined, body_visible = Undefined \<rparr> [])) = [''example.com'']"
  by (simp add: post_api_bookmarks_url_not_prefixed)

text \<open>The \<open>sanitizeUrl\<close> of the import handler does what the claim says.\<close>

lemma sanitizeUrl_import_examples:
  "sanitizeUrl_import ''example.com'' = ''https://example.com''"
  "sanitizeUrl_import ''https://x.com'' = ''https://x.com''"
  by (simp_all add: sanitizeUrl_import_def trim_examples matchesHttpScheme_def
        toLowerAscii_def Let_def)

lemma sanitizeUrl_import_upper_case: "sanitizeUrl_import ''HTTP://x.com'' = ''HTTP://x.com''"
  by code_simp

lemma sanitizeUrl_import_prefix:
  "trim url \<noteq> [] \<Longrightarrow> \<not> matchesHttpScheme (trim url) \<Longrightarrow>
     sanitizeUrl_import url = ''https://'' @ trim url"
  by (simp add: sanitizeUrl_import_def Let_def)

text \<open>
  Claim C6. The claim says that \<open>create\<close> fails with a validation error, and writes
  nothing, whenever the title or the url is empty after trimming. The handler of the
  Express backend tests the title and the url before it trims them: a title of three
  spaces passes the test, the handler answers 201, and a bookmark without a title
  (\<open>sanitizeText\<close> returns \<open>undefined\<close>) is added to the file.
\<close>

theorem post_api_bookmarks_blank_title_stored:
  "post_api_bookmarks ''id1'' 7
     \<lparr> body_title = Str ''   '', body_url = Str ''https://x.com'', body_category = Undefined,
       body_description = Undefined, body_visible = Undefined \<rparr> []
   = (Created \<lparr> fb_id = ''id1'', fb_title = None, fb_url = ''https://x.com'',
                fb_category = None, fb_description = None, fb_visible = True,
                fb_createdAt = 7, fb_updatedAt = 7 \<rparr>,
      [\<lparr> fb_id = ''id1'', fb_title = None, fb_url = ''https://x.com'',
         fb_category = None, fb_description = None, fb_visible = True,
         fb_createdAt = 7, fb_updatedAt = 7 \<rparr>])"
  by (simp add: post_api_bookmarks_def sanitizeText_def sanitizeUrl_def trim_examples
        Let_def)

theorem post_api_bookmarks_blank_title_stored_witness:
  "map status [fst (post_api_bookmarks ''id1'' 7
     \<lparr> body_title = Str ''   '', body_url = Str ''https://x.com'', body_category = Undefined,
       body_description = Undefined, body_visible = Undefined \<rparr> [])] = [201]
   \<and> map fb_title (snd (post_api_bookmarks ''id1'' 7
     \<lparr> body_title = Str ''   '', body_url = Str ''https://x.com'', body_category = Undefined,
       body_description = Undefined, body_visible = Undefined \<rparr> [])) = [None]"
  by (simp add: post_api_bookmarks_blank_title_stored)

text \<open>A title or url that is absent, \<open>null\<close> or the empty string is refused with 400, and
  the file is left as it was.\<close>

lemma post_api_bookmarks_empty_refused:
  "\<not> truthy (body_title body) \<or> \<not> truthy (body_url body) \<Longrightarrow>
     post_api_bookmarks uuid now body f = (BadRequest, f)"
  by (auto simp: post_api_bookmarks_def)

text \<open>For an argument whose \<open>visible\<close> is a boolean, the call of the import handler does
  to the state what \<open>createBookmark\<close> does on an argument of its declared type.\<close>

lemma createBookmark_js_typed:
  assumes "a_visible a = Bool b"
  shows "createBookmark_js e uuid now a w
           = map_sum id snd (createBookmark e uuid now
               \<lparr> in_title = a_title a, in_url = a_url a, in_category = a_category a,
                 in_description = a_description a, in_visible = b \<rparr> w)"
  using assms
  by (simp add: createBookmark_js_def createBookmark_def Let_def readBookmarksFromDb_def
        backupData_eq split: sum.splits)

lemma pg_boolean_examples:
  "pg_boolean ''true'' = Some True"
  "pg_boolean ''false'' = Some False"
  "pg_boolean '' no '' = Some False"
  "pg_boolean ''o'' = None"
  "pg_boolean ''maybe'' = None"
  by (simp_all add: pg_boolean_def isspace_def toLowerAscii_def)

text \<open>
  Claim C9, as stated, fails for the import handler: the claim says that a \<open>visible\<close>
  field that is absent or not a boolean gives \<open>visible = true\<close>. The import handler
  tests only \<open>visible !== undefined\<close>: an element whose \<open>visible\<close> is the string
  \<open>"false"\<close> is passed to \<open>createBookmark\<close> with that string as \<open>visible\<close>, and the
  \<open>INSERT\<close> stores the row with \<open>visible = false\<close>.
\<close>

theorem import_bookmark_visible_passed_on:
  "import_bookmark \<lparr> it_title = Str ''T'', it_url = Str ''u.com'', it_category = Undefined,
                     it_description = Undefined, it_visible = Str ''false'' \<rparr>
   = CallCreate \<lparr> a_title = ''T'', a_url = ''https://u.com'', a_category = None,
                  a_description = None, a_visible = Str ''false'' \<rparr>
   \<and> stored_visible (createBookmark_js example_env ''n'' 9
         \<lparr> a_title = ''T'', a_url = ''https://u.com'', a_category = None,
           a_description = None, a_visible = Str ''false'' \<rparr> example_world)
     = Some [(''a'', True), (''b'', True), (''c'', False), (''n'', False)]"
proof -
  let ?a = "\<lparr> a_title = ''T'', a_url = ''https://u.com'', a_category = None,
               a_description = None, a_visible = Str ''false'' \<rparr>"
  have f: "''n'' \<notin> r_id ` set (bookmarks_table example_world)"
    and b: "\<forall>r\<in>set (bookmarks_table example_world). r_order r < 2147483647"
    by (simp_all add: example_world_def example_rows_def)
  have v: "sql_boolean (a_visible ?a) = Inr False"
    by (simp add: sql_boolean_def pg_boolean_examples)
  have 1: "import_bookmark \<lparr> it_title = Str ''T'', it_url = Str ''u.com'', it_category = Undefined,
                     it_description = Undefined, it_visible = Str ''false'' \<rparr> = CallCreate ?a"
    by (simp add: import_bookmark_def sanitizeUrl_import_def trim_examples
          matchesHttpScheme_def toLowerAscii_def Let_def)
  have 2: "stored_visible (createBookmark_js example_env ''n'' 9 ?a example_world)
     = Some [(''a'', True), (''b'', True), (''c'', False), (''n'', False)]"
    by (simp add: createBookmark_js_eq[OF f b v] stored_visible_def Let_def)
       (simp add: example_world_def example_rows_def)
  from 1 2 show ?thesis by (intro conjI)
qed

text \<open>
  Claim C9, amended. On the create endpoint of the Express backend, a request that passes
  the validation and whose \<open>visible\<close> field is absent or not a boolean stores the
  bookmark with \<open>visible = true\<close>. In the import handler, an element whose \<open>visible\<close>
  field is absent is passed to \<open>createBookmark\<close> with \<open>visible = true\<close>; any other value
  of the field, boolean or not, is passed on as it is. Whenever the call creates a
  bookmark, the row has the id given and its \<open>visible\<close> is what PostgreSQL reads the
  value as: a boolean is stored as it is (and the call succeeds when the id is new and
  the order values are below 2147483647), so an absent field is stored as \<open>true\<close>; when
  PostgreSQL does not accept the value (\<open>null\<close>, or a string that it does not read as a
  boolean), the call fails and no bookmark is created.
\<close>

theorem visible_defaults_to_true:
  "((\<forall>b. body_visible body \<noteq> Bool b) \<and> truthy (body_title body) \<and> truthy (body_url body) \<longrightarrow>
      (\<exists>nb. post_api_bookmarks uuid now body f = (Created nb, f @ [nb]) \<and> fb_visible nb))
   \<and> (import_bookmark d = CallCreate a \<and> it_visible d = Undefined \<longrightarrow> a_visible a = Bool True)
   \<and> (import_bookmark d = CallCreate a \<and> it_visible d \<noteq> Undefined \<longrightarrow> a_visible a = it_visible d)
   \<and> (\<forall>w'. createBookmark_js e uuid' now' a w = Inr w' \<longrightarrow>
         (\<exists>r b. sql_boolean (a_visible a) = Inr b
            \<and> bookmarks_table w' = bookmarks_table w @ [r]
            \<and> r_id r = uuid' \<and> r_visible r = b))
   \<and> (\<forall>b. a_visible a = Bool b \<and> uuid' \<notin> r_id ` set (bookmarks_table w)
            \<and> (\<forall>x\<in>set (bookmarks_table w). r_order x < 2147483647) \<longrightarrow>
         (\<exists>r w'. createBookmark_js e uuid' now' a w = Inr w'
            \<and> bookmarks_table w' = bookmarks_table w @ [r]
            \<and> r_id r = uuid' \<and> r_visible r = b))
   \<and> ((\<exists>err. sql_boolean (a_visible a) = Inl err) \<longrightarrow>
         (\<exists>err. createBookmark_js e uuid' now' a w = Inl err))
   \<and> sql_boolean Null = Inl (Error ''null value in column visible violates not-null constraint'')
   \<and> sql_boolean (Str ''false'') = Inr False"
proof (intro conjI impI allI)
  assume "(\<forall>b. body_visible body \<noteq> Bool b) \<and> truthy (body_title body) \<and> truthy (body_url body)"
  then show "\<exists>nb. post_api_bookmarks uuid now body f = (Created nb, f @ [nb]) \<and> fb_visible nb"
    by (cases "body_visible body") (auto simp: post_api_bookmarks_def Let_def)
next
  assume "import_bookmark d = CallCreate a \<and> it_visible d = Undefined"
  then show "a_visible a = Bool True"
    by (auto simp: import_bookmark_def Let_def split: if_splits jsval.splits option.splits)
next
  assume "import_bookmark d = CallCreate a \<and> it_visible d \<noteq> Undefined"
  then show "a_visible a = it_visible d"
    by (auto simp: import_bookmark_def Let_def split: if_splits jsval.splits option.splits)
next
  fix w'
  assume "createBookmark_js e uuid' now' a w = Inr w'"
  then show "\<exists>r b. sql_boolean (a_visible a) = Inr b
            \<and> bookmarks_table w' = bookmarks_table w @ [r]
            \<and> r_id r = uuid' \<and> r_visible r = b"
    by (auto simp: createBookmark_js_def sql_insert_bookmark_def Let_def readBookmarksFromDb_def
          backupData_eq split: sum.splits if_splits)
next
  fix b
  assume h: "a_visible a = Bool b \<and> uuid' \<notin> r_id ` set (bookmarks_table w)
            \<and> (\<forall>x\<in>set (bookmarks_table w). r_order x < 2147483647)"
  then have v: "sql_boolean (a_visible a) = Inr b" by simp
  from h have f: "uuid' \<notin> r_id ` set (bookmarks_table w)"
    and o: "\<forall>x\<in>set (bookmarks_table w). r_order x < 2147483647" by simp_all
  show "\<exists>r w'. createBookmark_js e uuid' now' a w = Inr w'
            \<and> bookmarks_table w' = bookmarks_table w @ [r]
            \<and> r_id r = uuid' \<and> r_visible r = b"
    by (simp add: createBookmark_js_eq[OF f o v] Let_def)
next
  assume "\<exists>err. sql_boolean (a_visible a) = Inl err"
  then show "\<exists>err. createBookmark_js e uuid' now' a w = Inl err"
    by (auto simp: createBookmark_js_def sql_insert_bookmark_def Let_def split: sum.splits)
next
  show "sql_boolean Null = Inl (Error ''null value in column visible violates not-null constraint'')"
    by (simp add: sql_boolean_def)
next
  show "sql_boolean (Str ''false'') = Inr False"
    by (simp add: sql_boolean_def pg_boolean_examples)
qed

theorem visible_defaults_to_true_witness:
  "(\<exists>nb. post_api_bookmarks ''id1'' 7
            \<lparr> body_title = Str ''T'', body_url = Str ''u.com'', body_category = Undefined,
              body_description = Undefined, body_visible = Str ''no'' \<rparr> []
          = (Created nb, [] @ [nb]) \<and> fb_visible nb)
   \<and> (\<exists>a. import_bookmark \<lparr> it_title = Str ''T'', it_url = Str ''u.com'', it_category = Undefined,
                             it_description = Undefined, it_visible = Undefined \<rparr> = CallCreate a
          \<and> a_visible a = Bool True
          \<and> ''n'' \<notin> r_id ` set (bookmarks_table example_world)
          \<and> list_all (\<lambda>x. r_order x < 2147483647) (bookmarks_table example_world)
          \<and> (\<exists>r w'. createBookmark_js example_env ''n'' 9 a example_world = Inr w'
                \<and> bookmarks_table w' = bookmarks_table example_world @ [r]
                \<and> r_id r = ''n'' \<and> r_visible r = True))"
proof -
  let ?body = "\<lparr> body_title = Str ''T'', body_url = Str ''u.com'', body_category = Undefined,
                  body_description = Undefined, body_visible = Str ''no'' \<rparr>"
  let ?d = "\<lparr> it_title = Str ''T'', it_url = Str ''u.com'', it_category = Undefined,
               it_description = Undefined, it_visible = Undefined \<rparr>"
  let ?a = "\<lparr> a_title = ''T'', a_url = ''https://u.com'', a_category = None,
               a_description = None, a_visible = Bool True \<rparr>"
  have h: "(\<forall>b. body_visible ?body \<noteq> Bool b) \<and> truthy (body_title ?body) \<and> truthy (body_url ?body)"
    by simp
  have i: "import_bookmark ?d = CallCreate ?a"
    by (simp add: import_bookmark_def sanitizeUrl_import_def trim_examples
          matchesHttpScheme_def toLowerAscii_def Let_def)
  have u: "it_visible ?d = Undefined" by simp
  have f: "''n'' \<notin> r_id ` set (bookmarks_table example_world)"
    by (simp add: example_world_def example_rows_def)
  have o: "\<forall>x\<in>set (bookmarks_table example_world). r_order x < 2147483647"
    by (simp add: example_world_def example_rows_def)
  then have o': "list_all (\<lambda>x. r_order x < 2147483647) (bookmarks_table example_world)"
    by (simp add: list_all_iff)
  note t = visible_defaults_to_true[of ?body "''id1''" 7 "[]" ?d ?a example_env "''n''" 9 example_world]
  from t h have 1: "\<exists>nb. post_api_bookmarks ''id1'' 7 ?body [] = (Created nb, [] @ [nb]) \<and> fb_visible nb"
    by blast
  from t i u have 2: "a_visible ?a = Bool True" by blast
  note t5 = t[THEN conjunct2, THEN conjunct2, THEN conjunct2, THEN conjunct2, THEN conjunct1,
              rule_format, of True]
  have 3: "\<exists>r w'. createBookmark_js example_env ''n'' 9 ?a example_world = Inr w'
                \<and> bookmarks_table w' = bookmarks_table example_world @ [r]
                \<and> r_id r = ''n'' \<and> r_visible r = True"
    by (rule t5) (use f o in simp)
  from i 2 f o' 3
  have 4: "\<exists>a. import_bookmark ?d = CallCreate a
          \<and> a_visible a = Bool True
          \<and> ''n'' \<notin> r_id ` set (bookmarks_table example_world)
          \<and> list_all (\<lambda>x. r_order x < 2147483647) (bookmarks_table example_world)
          \<and> (\<exists>r w'. createBookmark_js example_env ''n'' 9 a example_world = Inr w'
                \<and> bookmarks_table w' = bookmarks_table example_world @ [r]
                \<and> r_id r = ''n'' \<and> r_visible r = True)"
    by (intro exI[of _ ?a] conjI)
  from 1 4 show ?thesis by (intro conjI)
qed


section \<open>Claims about the settings\<close>

text \<open>
  Claim C7. \<open>updateSettings\<close> merges a partial update into the settings: it returns, and
  stores, settings in which every field that the update gives has the value given and
  every field that the update does not give has the value it had, in the relational
  backend and in the JSON document backend. In particular, after two calls of
  \<open>updateSettings({theme: "dark"})\<close> in a row the theme is \<open>dark\<close> and the site title
  and the site icon are those from before the first call.
\<close>

theorem updateSettings_merge:
  "(\<exists>next w'. updateSettings e partial w = Inr (next, w')
       \<and> fst (readSettingsFromDb w') = next
       \<and> (p_theme partial = None \<longrightarrow> theme next = theme (fst (readSettingsFromDb w)))
       \<and> (p_siteTitle partial = None \<longrightarrow> siteTitle next = siteTitle (fst (readSettingsFromDb w)))
       \<and> (p_siteIcon partial = None \<longrightarrow> siteIcon next = siteIcon (fst (readSettingsFromDb w)))
       \<and> (\<forall>v. p_theme partial = Some v \<longrightarrow> theme next = v)
       \<and> (\<forall>v. p_siteTitle partial = Some v \<longrightarrow> siteTitle next = v)
       \<and> (\<forall>v. p_siteIcon partial = Some v \<longrightarrow> siteIcon next = v))
   \<and> (\<exists>n1 w1 n2 w2.
         updateSettings e \<lparr> p_theme = Some ''dark'', p_siteTitle = None, p_siteIcon = None \<rparr> w
           = Inr (n1, w1)
       \<and> updateSettings e' \<lparr> p_theme = Some ''dark'', p_siteTitle = None, p_siteIcon = None \<rparr> w1
           = Inr (n2, w2)
       \<and> n2 = fst (readSettingsFromDb w2)
       \<and> theme n2 = ''dark''
       \<and> siteTitle n2 = siteTitle (fst (readSettingsFromDb w))
       \<and> siteIcon n2 = siteIcon (fst (readSettingsFromDb w)))
   \<and> (\<exists>next s'. updateSettings_json partial s = (next, s')
       \<and> loadSettings s' = next
       \<and> (p_theme partial = None \<longrightarrow> theme next = theme (loadSettings s))
       \<and> (p_siteTitle partial = None \<longrightarrow> siteTitle next = siteTitle (loadSettings s))
       \<and> (p_siteIcon partial = None \<longrightarrow> siteIcon next = siteIcon (loadSettings s))
       \<and> (\<forall>v. p_theme partial = Some v \<longrightarrow> theme next = v)
       \<and> (\<forall>v. p_siteTitle partial = Some v \<longrightarrow> siteTitle next = v)
       \<and> (\<forall>v. p_siteIcon partial = Some v \<longrightarrow> siteIcon next = v))
   \<and> (\<exists>n1 s1 n2 s2.
         updateSettings_json \<lparr> p_theme = Some ''dark'', p_siteTitle = None, p_siteIcon = None \<rparr> s
           = (n1, s1)
       \<and> updateSettings_json \<lparr> p_theme = Some ''dark'', p_siteTitle = None, p_siteIcon = None \<rparr> s1
           = (n2, s2)
       \<and> n2 = loadSettings s2
       \<and> theme n2 = ''dark''
       \<and> siteTitle n2 = siteTitle (loadSettings s)
       \<and> siteIcon n2 = siteIcon (loadSettings s))"
proof (intro conjI)
  show "\<exists>next w'. updateSettings e partial w = Inr (next, w')
       \<and> fst (readSettingsFromDb w') = next
       \<and> (p_theme partial = None \<longrightarrow> theme next = theme (fst (readSettingsFromDb w)))
       \<and> (p_siteTitle partial = None \<longrightarrow> siteTitle next = siteTitle (fst (readSettingsFromDb w)))
       \<and> (p_siteIcon partial = None \<longrightarrow> siteIcon next = siteIcon (fst (readSettingsFromDb w)))
       \<and> (\<forall>v. p_theme partial = Some v \<longrightarrow> theme next = v)
       \<and> (\<forall>v. p_siteTitle partial = Some v \<longrightarrow> siteTitle next = v)
       \<and> (\<forall>v. p_siteIcon partial = Some v \<longrightarrow> siteIcon next = v)"
    by (simp add: updateSettings_eq readSettings_fst Let_def)
next
  show "\<exists>n1 w1 n2 w2.
         updateSettings e \<lparr> p_theme = Some ''dark'', p_siteTitle = None, p_siteIcon = None \<rparr> w
           = Inr (n1, w1)
       \<and> updateSettings e' \<lparr> p_theme = Some ''dark'', p_siteTitle = None, p_siteIcon = None \<rparr> w1
           = Inr (n2, w2)
       \<and> n2 = fst (readSettingsFromDb w2)
       \<and> theme n2 = ''dark''
       \<and> siteTitle n2 = siteTitle (fst (readSettingsFromDb w))
       \<and> siteIcon n2 = siteIcon (fst (readSettingsFromDb w))"
    by (simp add: updateSettings_eq readSettings_fst Let_def)
next
  show "\<exists>next s'. updateSettings_json partial s = (next, s')
       \<and> loadSettings s' = next
       \<and> (p_theme partial = None \<longrightarrow> theme next = theme (loadSettings s))
       \<and> (p_siteTitle partial = None \<longrightarrow> siteTitle next = siteTitle (loadSettings s))
       \<and> (p_siteIcon partial = None \<longrightarrow> siteIcon next = siteIcon (loadSettings s))
       \<and> (\<forall>v. p_theme partial = Some v \<longrightarrow> theme next = v)
       \<and> (\<forall>v. p_siteTitle partial = Some v \<longrightarrow> siteTitle next = v)
       \<and> (\<forall>v. p_siteIcon partial = Some v \<longrightarrow> siteIcon next = v)"
    by (simp add: updateSettings_json_def loadSettings_def saveSettings_def Let_def)
next
  show "\<exists>n1 s1 n2 s2.
         updateSettings_json \<lparr> p_theme = Some ''dark'', p_siteTitle = None, p_siteIcon = None \<rparr> s
           = (n1, s1)
       \<and> updateSettings_json \<lparr> p_theme = Some ''dark'', p_siteTitle = None, p_siteIcon = None \<rparr> s1
           = (n2, s2)
       \<and> n2 = loadSettings s2
       \<and> theme n2 = ''dark''
       \<and> siteTitle n2 = siteTitle (loadSettings s)
       \<and> siteIcon n2 = siteIcon (loadSettings s)"
    by (simp add: updateSettings_json_def loadSettings_def saveSettings_def Let_def)
qed

theorem updateSettings_merge_witness:
  "fst (readSettingsFromDb example_world_settings)
     = \<lparr> theme = ''light'', siteTitle = ''My links'', siteIcon = ''star.png'' \<rparr>
   \<and> p_siteTitle \<lparr> p_theme = Some ''dark'', p_siteTitle = None, p_siteIcon = None \<rparr> = None
   \<and> p_siteIcon \<lparr> p_theme = Some ''dark'', p_siteTitle = None, p_siteIcon = None \<rparr> = None
   \<and> (\<exists>next w'.
         updateSettings example_env \<lparr> p_theme = Some ''dark'', p_siteTitle = None, p_siteIcon = None \<rparr>
           example_world_settings = Inr (next, w')
       \<and> next = \<lparr> theme = ''dark'', siteTitle = ''My links'', siteIcon = ''star.png'' \<rparr>)
   \<and> p_theme \<lparr> p_theme = None, p_siteTitle = Some ''New title'', p_siteIcon = None \<rparr> = None
   \<and> (\<exists>next s'.
         updateSettings_json \<lparr> p_theme = None, p_siteTitle = Some ''New title'', p_siteIcon = None \<rparr>
           example_store_settings = (next, s')
       \<and> next = \<lparr> theme = ''light'', siteTitle = ''New title'', siteIcon = ''star.png'' \<rparr>)"
proof -
  let ?p = "\<lparr> p_theme = Some ''dark'', p_siteTitle = None, p_siteIcon = None \<rparr>"
  let ?q = "\<lparr> p_theme = None, p_siteTitle = Some ''New title'', p_siteIcon = None \<rparr>"
  have r: "fst (readSettingsFromDb example_world_settings)
     = \<lparr> theme = ''light'', siteTitle = ''My links'', siteIcon = ''star.png'' \<rparr>"
    by (simp add: readSettings_fst example_world_settings_def example_settings_def)
  have l: "loadSettings example_store_settings
     = \<lparr> theme = ''light'', siteTitle = ''My links'', siteIcon = ''star.png'' \<rparr>"
    by (simp add: loadSettings_def example_store_settings_def example_settings_def)
  have h1: "p_siteTitle ?p = None" and h2: "p_siteIcon ?p = None" and h3: "p_theme ?p = Some ''dark''"
    and h4: "p_theme ?q = None" and h5: "p_siteIcon ?q = None" and h6: "p_siteTitle ?q = Some ''New title''"
    by simp_all
  note m = updateSettings_merge[of example_env ?p example_world_settings example_env
             example_store_settings, THEN conjunct1]
  then obtain next' w' where
    u: "updateSettings example_env ?p example_world_settings = Inr (next', w')"
    and a: "p_siteTitle ?p = None \<longrightarrow>
              siteTitle next' = siteTitle (fst (readSettingsFromDb example_world_settings))"
    and b: "p_siteIcon ?p = None \<longrightarrow>
              siteIcon next' = siteIcon (fst (readSettingsFromDb example_world_settings))"
    and c: "\<forall>v. p_theme ?p = Some v \<longrightarrow> theme next' = v"
    by (elim exE conjE) (rule that)
  from a b c h1 h2 h3 r
  have "theme next' = ''dark''" "siteTitle next' = ''My links''" "siteIcon next' = ''star.png''"
    by simp_all
  then have n: "next' = \<lparr> theme = ''dark'', siteTitle = ''My links'', siteIcon = ''star.png'' \<rparr>"
    by (cases next') simp
  from u n have 1: "\<exists>next w'. updateSettings example_env ?p example_world_settings = Inr (next, w')
       \<and> next = \<lparr> theme = ''dark'', siteTitle = ''My links'', siteIcon = ''star.png'' \<rparr>"
    by (intro exI[of _ next'] exI[of _ w'] conjI)
  note j = updateSettings_merge[of example_env ?q example_world_settings example_env
             example_store_settings, THEN conjunct2, THEN conjunct2, THEN conjunct1]
  then obtain next'' s' where
    u': "updateSettings_json ?q example_store_settings = (next'', s')"
    and a': "p_theme ?q = None \<longrightarrow> theme next'' = theme (loadSettings example_store_settings)"
    and b': "p_siteIcon ?q = None \<longrightarrow> siteIcon next'' = siteIcon (loadSettings example_store_settings)"
    and c': "\<forall>v. p_siteTitle ?q = Some v \<longrightarrow> siteTitle next'' = v"
    by (elim exE conjE) (rule that)
  from a' b' c' h4 h5 h6 l
  have "theme next'' = ''light''" "siteTitle next'' = ''New title''" "siteIcon next'' = ''star.png''"
    by simp_all
  then have n': "next'' = \<lparr> theme = ''light'', siteTitle = ''New title'', siteIcon = ''star.png'' \<rparr>"
    by (cases next'') simp
  from u' n' have 2: "\<exists>next s'. updateSettings_json ?q example_store_settings = (next, s')
       \<and> next = \<lparr> theme = ''light'', siteTitle = ''New title'', siteIcon = ''star.png'' \<rparr>"
    by (intro exI[of _ next''] exI[of _ s'] conjI)
  from r h1 h2 1 h4 2 show ?thesis by (intro conjI)
qed


section \<open>Claims about the backup\<close>

lemma updated_row_found:
  assumes "filter (\<lambda>r. r_id r = ident) t \<noteq> []"
  shows "filter (\<lambda>r. r_id r = ident)
           (map (\<lambda>r. if r_id r = ident
                      then r\<lparr> r_title := a, r_url := b, r_category := c,
                              r_description := d, r_visible := v \<rparr>
                      else r) t) \<noteq> []"
  using assms by (induction t) (auto split: if_splits)

lemma updateBookmark_backup:
  "\<exists>r w' w''. updateBookmark e ident data w = Inr (r, w')
      \<and> updateBookmark (reliable_backup e) ident data w = Inr (r, w'')
      \<and> bookmarks_table w' = bookmarks_table w''
      \<and> settings_table w' = settings_table w''"
proof (cases "filter (\<lambda>r. r_id r = ident) (bookmarks_table w) = []")
  case True
  then show ?thesis by (simp add: updateBookmark_def Let_def)
next
  case False
  from updated_row_found[OF False] show ?thesis
    using False
    by (simp add: updateBookmark_def Let_def readBookmarksFromDb_def backupData_eq
          split: list.splits)
qed

lemma deleteBookmark_backup:
  "\<exists>r w' w''. deleteBookmark e ident w = Inr (r, w')
      \<and> deleteBookmark (reliable_backup e) ident w = Inr (r, w'')
      \<and> bookmarks_table w' = bookmarks_table w''
      \<and> settings_table w' = settings_table w''"
  by (simp add: deleteBookmark_def Let_def readBookmarksFromDb_def backupData_eq
        split: list.splits)

lemma reorderBookmarkCategories_eq:
  "reorderBookmarkCategories e order' w =
     (let reordered = reorder_by_categories order'
                        (map row_to_record (sql_select_ordered (bookmarks_table w)))
      in Inr (reordered,
              (ensureTables w)\<lparr> bookmarks_table :=
                                   update_order_loop 0 (map b_id reordered) (bookmarks_table w),
                                 console := console w @ backup_log e BookmarksKey
                                              (BookmarksPayload reordered) \<rparr>))"
  by (simp add: reorderBookmarkCategories_def readBookmarksFromDb_def backupData_eq Let_def)

text \<open>
  Claim C8. A failing backup write is caught and logged, and is not passed on to the
  caller. \<open>backupData\<close> always returns, leaving both tables as they are; when the write
  throws, the error is added to the console. Each of the six operations that write
  (create, update, delete, reorder, reorder categories, update settings) returns, whatever
  the backup store does, the result it returns with a backup store whose writes never
  fail, and leaves the two tables in the same state. For create this is so whenever its
  own statements are accepted (the id is new and the order values are below 2147483647);
  when PostgreSQL rejects one of them, create throws that error with either backup store.
\<close>

theorem backup_failure_not_surfaced:
  "(\<exists>w'. backupData e key payload w = Inr w'
       \<and> bookmarks_table w' = bookmarks_table w \<and> settings_table w' = settings_table w
       \<and> (\<forall>err. backupData_try e key payload = Inl err
              \<longrightarrow> console w' = console w @ [BackupFailed key err]))
   \<and> (uuid \<notin> r_id ` set (bookmarks_table w) \<and> (\<forall>x\<in>set (bookmarks_table w). r_order x < 2147483647)
        \<longrightarrow> (\<exists>r w' w''. createBookmark e uuid now data w = Inr (r, w')
               \<and> createBookmark (reliable_backup e) uuid now data w = Inr (r, w'')
               \<and> bookmarks_table w' = bookmarks_table w'' \<and> settings_table w' = settings_table w''))
   \<and> (uuid \<in> r_id ` set (bookmarks_table w) \<or> (\<exists>x\<in>set (bookmarks_table w). 2147483647 \<le> r_order x)
        \<longrightarrow> (\<exists>err. createBookmark e uuid now data w = Inl err
               \<and> createBookmark (reliable_backup e) uuid now data w = Inl err))
   \<and> (\<exists>r w' w''. updateBookmark e ident data w = Inr (r, w')
       \<and> updateBookmark (reliable_backup e) ident data w = Inr (r, w'')
       \<and> bookmarks_table w' = bookmarks_table w'' \<and> settings_table w' = settings_table w'')
   \<and> (\<exists>r w' w''. deleteBookmark e ident w = Inr (r, w')
       \<and> deleteBookmark (reliable_backup e) ident w = Inr (r, w'')
       \<and> bookmarks_table w' = bookmarks_table w'' \<and> settings_table w' = settings_table w'')
   \<and> (\<exists>r w' w''. reorderBookmarks e ids w = Inr (r, w')
       \<and> reorderBookmarks (reliable_backup e) ids w = Inr (r, w'')
       \<and> bookmarks_table w' = bookmarks_table w'' \<and> settings_table w' = settings_table w'')
   \<and> (\<exists>r w' w''. reorderBookmarkCategories e names w = Inr (r, w')
       \<and> reorderBookmarkCategories (reliable_backup e) names w = Inr (r, w'')
       \<and> bookmarks_table w' = bookmarks_table w'' \<and> settings_table w' = settings_table w'')
   \<and> (\<exists>r w' w''. updateSettings e partial w = Inr (r, w')
       \<and> updateSettings (reliable_backup e) partial w = Inr (r, w'')
       \<and> bookmarks_table w' = bookmarks_table w'' \<and> settings_table w' = settings_table w'')"
proof (intro conjI)
  show "\<exists>w'. backupData e key payload w = Inr w'
       \<and> bookmarks_table w' = bookmarks_table w \<and> settings_table w' = settings_table w
       \<and> (\<forall>err. backupData_try e key payload = Inl err
              \<longrightarrow> console w' = console w @ [BackupFailed key err])"
    by (simp add: backupData_eq backup_log_def)
next
  show "uuid \<notin> r_id ` set (bookmarks_table w) \<and> (\<forall>x\<in>set (bookmarks_table w). r_order x < 2147483647)
        \<longrightarrow> (\<exists>r w' w''. createBookmark e uuid now data w = Inr (r, w')
               \<and> createBookmark (reliable_backup e) uuid now data w = Inr (r, w'')
               \<and> bookmarks_table w' = bookmarks_table w'' \<and> settings_table w' = settings_table w'')"
    by (simp add: createBookmark_eq Let_def)
next
  show "uuid \<in> r_id ` set (bookmarks_table w) \<or> (\<exists>x\<in>set (bookmarks_table w). 2147483647 \<le> r_order x)
        \<longrightarrow> (\<exists>err. createBookmark e uuid now data w = Inl err
               \<and> createBookmark (reliable_backup e) uuid now data w = Inl err)"
    using createBookmark_rejected[of uuid w e now data "reliable_backup e"] by blast
next
  show "\<exists>r w' w''. updateBookmark e ident data w = Inr (r, w')
       \<and> updateBookmark (reliable_backup e) ident data w = Inr (r, w'')
       \<and> bookmarks_table w' = bookmarks_table w'' \<and> settings_table w' = settings_table w''"
    by (rule updateBookmark_backup)
next
  show "\<exists>r w' w''. deleteBookmark e ident w = Inr (r, w')
       \<and> deleteBookmark (reliable_backup e) ident w = Inr (r, w'')
       \<and> bookmarks_table w' = bookmarks_table w'' \<and> settings_table w' = settings_table w''"
    by (rule deleteBookmark_backup)
next
  show "\<exists>r w' w''. reorderBookmarks e ids w = Inr (r, w')
       \<and> reorderBookmarks (reliable_backup e) ids w = Inr (r, w'')
       \<and> bookmarks_table w' = bookmarks_table w'' \<and> settings_table w' = settings_table w''"
    by (simp add: reorderBookmarks_eq Let_def)
next
  show "\<exists>r w' w''. reorderBookmarkCategories e names w = Inr (r, w')
       \<and> reorderBookmarkCategories (reliable_backup e) names w = Inr (r, w'')
       \<and> bookmarks_table w' = bookmarks_table w'' \<and> settings_table w' = settings_table w''"
    by (simp add: reorderBookmarkCategories_eq Let_def)
next
  show "\<exists>r w' w''. updateSettings e partial w = Inr (r, w')
       \<and> updateSettings (reliable_backup e) partial w = Inr (r, w'')
       \<and> bookmarks_table w' = bookmarks_table w'' \<and> settings_table w' = settings_table w''"
    by (simp add: updateSettings_eq Let_def)
qed

theorem backup_failure_not_surfaced_witness:
  "backupData_try example_env BookmarksKey (BookmarksPayload []) = Inl (Error ''write failed'')
   \<and> (\<exists>w'. backupData example_env BookmarksKey (BookmarksPayload []) example_world = Inr w'
         \<and> bookmarks_table w' = bookmarks_table example_world
         \<and> console w' = [BackupFailed BookmarksKey (Error ''write failed'')])
   \<and> ''n'' \<notin> r_id ` set (bookmarks_table example_world)
   \<and> list_all (\<lambda>x. r_order x < 2147483647) (bookmarks_table example_world)
   \<and> (\<exists>r w' w''. createBookmark example_env ''n'' 9 example_input example_world = Inr (r, w')
         \<and> createBookmark (reliable_backup example_env) ''n'' 9 example_input example_world
             = Inr (r, w'')
         \<and> bookmarks_table w' = bookmarks_table w'')"
proof -
  have t: "backupData_try example_env BookmarksKey (BookmarksPayload []) = Inl (Error ''write failed'')"
    by (simp add: backupData_try_def example_env_def)
  have c: "console example_world = []"
    by (simp add: example_world_def)
  have f: "''n'' \<notin> r_id ` set (bookmarks_table example_world)"
    by (simp add: example_world_def example_rows_def)
  have o: "\<forall>x\<in>set (bookmarks_table example_world). r_order x < 2147483647"
    by (simp add: example_world_def example_rows_def)
  then have o': "list_all (\<lambda>x. r_order x < 2147483647) (bookmarks_table example_world)"
    by (simp add: list_all_iff)
  note b = backup_failure_not_surfaced[of example_env BookmarksKey "BookmarksPayload []"
             example_world "''n''" 9 example_input]
  note m = b[THEN conjunct1]
  then obtain w' where
    "backupData example_env BookmarksKey (BookmarksPayload []) example_world = Inr w'"
    "bookmarks_table w' = bookmarks_table example_world"
    "\<forall>err. backupData_try example_env BookmarksKey (BookmarksPayload []) = Inl err
       \<longrightarrow> console w' = console example_world @ [BackupFailed BookmarksKey err]"
    by (elim exE conjE) (rule that)
  with t c have 1: "\<exists>w'. backupData example_env BookmarksKey (BookmarksPayload []) example_world = Inr w'
         \<and> bookmarks_table w' = bookmarks_table example_world
         \<and> console w' = [BackupFailed BookmarksKey (Error ''write failed'')]"
    by simp
  note k = b[THEN conjunct2, THEN conjunct1, rule_format]
  have "\<exists>r w' w''. createBookmark example_env ''n'' 9 example_input example_world = Inr (r, w')
         \<and> createBookmark (reliable_backup example_env) ''n'' 9 example_input example_world
             = Inr (r, w'')
         \<and> bookmarks_table w' = bookmarks_table w'' \<and> settings_table w' = settings_table w''"
    by (rule k) (use f o in simp)
  then obtain r w1 w2 where
    "createBookmark example_env ''n'' 9 example_input example_world = Inr (r, w1)"
    "createBookmark (reliable_backup example_env) ''n'' 9 example_input example_world = Inr (r, w2)"
    "bookmarks_table w1 = bookmarks_table w2"
    by (elim exE conjE) (rule that)
  then have 2: "\<exists>r w' w''. createBookmark example_env ''n'' 9 example_input example_world = Inr (r, w')
         \<and> createBookmark (reliable_backup example_env) ''n'' 9 example_input example_world
             = Inr (r, w'')
         \<and> bookmarks_table w' = bookmarks_table w''"
    by (intro exI[of _ r] exI[of _ w1] exI[of _ w2] conjI)
  from t 1 f o' 2 show ?thesis by (intro conjI)
qed


section \<open>Claims about reordering categories\<close>


lemma set_first_seen [simp]: "set (first_seen xs) = set xs"
  by (induction xs) auto

lemma distinct_first_seen [simp]: "distinct (first_seen xs)"
  by (induction xs) auto




















end
